theory Spec2Isabelle
  imports Complex_Main
begin

section \<open>Data model (models/User.ts, models/UsageEvent.ts)\<close>

text \<open>
  Dates are milliseconds since the epoch (\<open>int\<close>), as \<open>Date.now()\<close> returns them.
  The counters \<open>promptsPerMonth\<close> and \<open>promptsUsed\<close> are JavaScript numbers holding
  integers; they are modelled as \<open>int\<close>. An optional field is an \<open>option\<close>.
  A handler reads the clock several times while it runs; the model gives it one reading
  \<open>now\<close>. Mongoose's own bookkeeping (\<open>_id\<close>, \<open>createdAt\<close>, \<open>updatedAt\<close>) is left out:
  a document is identified by its position in the collection. The database calls are
  taken to succeed, with one exception: the usage event of /track carries fields of the
  request that Mongoose may refuse to cast, and that failure is modelled.
\<close>

datatype SubscriptionTier = FAN | DEVELOPER | ENTERPRISE

datatype SubscriptionStatus = ACTIVE | INACTIVE | CANCELLED | EXPIRED | TRIAL

record IUsageQuota =
  promptsPerMonth :: int
  promptsUsed :: int
  resetDate :: int
  lastResetDate :: "int option"

record ISubscription =
  tier :: SubscriptionTier
  status :: SubscriptionStatus
  startDate :: int
  endDate :: "int option"
  renewalDate :: "int option"
  goDaddySubscriptionId :: "string option"
  goDaddyCustomerId :: "string option"
  paymentMethodId :: "string option"
  trialEndDate :: "int option"
  isTrialActive :: bool

record UserMetadata =
  extensionVersion :: "string option"
  lastActiveDate :: "int option"
  installationId :: "string option"
  source :: "string option"

record IUser =
  userId :: string
  email :: "string option"
  apiKey :: "string option"
  subscription :: ISubscription
  usageQuota :: IUsageQuota
  features :: "string list"
  metadata :: UserMetadata

datatype UsageEventType =
  PROMPT | CODE_COMPLETION | DEPENDENCY_VISUALIZATION | KNOWLEDGE_BASE
  | FINE_TUNING | CHAT | AGENT

text \<open>A value of a JSON body, as \<open>express.json\<close> parses it.\<close>

datatype Json =
  JNull | JBool bool | JNum real | JStr string | JArr "Json list"
  | JObj "(string \<times> Json) list"

record IUsageEvent =
  ev_userId :: string
  ev_eventId :: string
  ev_type :: UsageEventType
  ev_feature :: string
  ev_timestamp :: int
  ev_metadata :: "(string \<times> Json) list"
  ev_extensionVersion :: "string option"
  ev_source :: "string option"

text \<open>The two collections. \<open>users\<close> is in the order the documents were inserted.\<close>

record Database =
  users :: "IUser list"
  usageEvents :: "IUsageEvent list"

text \<open>
  \<open>Model.findOne(filter)\<close>: the position of the first document that matches, or
  \<open>None\<close> (the source's \<open>null\<close>).
\<close>

fun findOne :: "('a \<Rightarrow> bool) \<Rightarrow> 'a list \<Rightarrow> nat option" where
  "findOne P [] = None"
| "findOne P (x # xs) = (if P x then Some 0 else map_option Suc (findOne P xs))"

text \<open>\<open>user.save()\<close> of a document that was found at position \<open>i\<close>.\<close>

definition save :: "nat \<Rightarrow> IUser \<Rightarrow> Database \<Rightarrow> Database" where
  "save i user db = db\<lparr>users := (users db)[i := user]\<rparr>"

text \<open>\<open>user.save()\<close> of a document made with \<open>new User(...)\<close>.\<close>

definition saveNew :: "IUser \<Rightarrow> Database \<Rightarrow> Database" where
  "saveNew user db = db\<lparr>users := users db @ [user]\<rparr>"

text \<open>JavaScript truthiness of an optional string: \<open>undefined\<close> and \<open>''\<close> are falsy.\<close>

fun truthy :: "string option \<Rightarrow> bool" where
  "truthy None = False"
| "truthy (Some s) = (s \<noteq> [])"

text \<open>\<open>30 * 24 * 60 * 60 * 1000\<close> milliseconds.\<close>

definition thirtyDays :: int where
  "thirtyDays = 30 * 24 * 60 * 60 * 1000"

section \<open>Methods of the user schema (models/User.ts)\<close>

definition hasRemainingPrompts :: "IUser \<Rightarrow> bool" where
  "hasRemainingPrompts user =
     (promptsPerMonth (usageQuota user) = -1
      \<or> promptsUsed (usageQuota user) < promptsPerMonth (usageQuota user))"

definition incrementPromptUsage :: "int \<Rightarrow> IUser \<Rightarrow> IUser" where
  "incrementPromptUsage now user =
     user\<lparr>usageQuota := (usageQuota user)\<lparr>promptsUsed := promptsUsed (usageQuota user) + 1\<rparr>,
          metadata := (metadata user)\<lparr>lastActiveDate := Some now\<rparr>\<rparr>"

definition resetUsageQuota :: "int \<Rightarrow> IUser \<Rightarrow> IUser" where
  "resetUsageQuota now user =
     user\<lparr>usageQuota := (usageQuota user)\<lparr>promptsUsed := 0,
                                          lastResetDate := Some now,
                                          resetDate := now + thirtyDays\<rparr>\<rparr>"

section \<open>Usage tracking (routes/usage.ts, POST /track)\<close>

text \<open>\<open>Object.values(UsageEventType)\<close>, read back from the request's string.\<close>

definition parseUsageEventType :: "string \<Rightarrow> UsageEventType option" where
  "parseUsageEventType s =
     map_of [(''prompt'', PROMPT), (''code_completion'', CODE_COMPLETION),
             (''dependency_visualization'', DEPENDENCY_VISUALIZATION),
             (''knowledge_base'', KNOWLEDGE_BASE), (''fine_tuning'', FINE_TUNING),
             (''chat'', CHAT), (''agent'', AGENT)] s"

text \<open>The body of the request; \<open>req_metadata\<close> is \<open>None\<close> when the body has no metadata.\<close>

record TrackRequest =
  req_userId :: string
  req_type :: string
  req_feature :: string
  req_metadata :: "Json option"

text \<open>
  \<open>body('metadata').optional().isObject()\<close> together with the default \<open>metadata = {}\<close>
  of line 26: the properties of the metadata, or \<open>None\<close> when the validator refuses it.
\<close>

fun metadataFields :: "Json option \<Rightarrow> (string \<times> Json) list option" where
  "metadataFields None = Some []"
| "metadataFields (Some (JObj props)) = Some props"
| "metadataFields (Some _) = None"

text \<open>The \<open>usageQuota\<close> object of a response.\<close>

record QuotaView =
  qv_promptsPerMonth :: int
  qv_promptsUsed :: int
  qv_promptsRemaining :: int
  qv_resetDate :: int

datatype TrackResponse =
  TrackValidationError
  | TrackUserNotFound
  | TrackFeatureNotAvailable
  | TrackUsageLimitExceeded QuotaView
  | TrackSuccess string QuotaView
  | TrackInternalError

fun trackStatus :: "TrackResponse \<Rightarrow> nat" where
  "trackStatus TrackValidationError = 400"
| "trackStatus TrackUserNotFound = 404"
| "trackStatus TrackFeatureNotAvailable = 403"
| "trackStatus (TrackUsageLimitExceeded _) = 429"
| "trackStatus (TrackSuccess _ _) = 200"
| "trackStatus TrackInternalError = 500"

text \<open>The types of the test on line 46: prompt, chat and agent.\<close>

definition promptBased :: "UsageEventType \<Rightarrow> bool" where
  "promptBased ty = (ty = PROMPT \<or> ty = CHAT \<or> ty = AGENT)"

text \<open>The body of the 429 response (lines 49 to 58).\<close>

definition limitExceededView :: "IUser \<Rightarrow> QuotaView" where
  "limitExceededView user =
     \<lparr>qv_promptsPerMonth = promptsPerMonth (usageQuota user),
      qv_promptsUsed = promptsUsed (usageQuota user),
      qv_promptsRemaining = 0,
      qv_resetDate = resetDate (usageQuota user)\<rparr>"

text \<open>The \<open>usageQuota\<close> of the 200 response (lines 88 to 94).\<close>

definition trackQuotaView :: "IUser \<Rightarrow> QuotaView" where
  "trackQuotaView user =
     \<lparr>qv_promptsPerMonth = promptsPerMonth (usageQuota user),
      qv_promptsUsed = promptsUsed (usageQuota user),
      qv_promptsRemaining =
        (if promptsPerMonth (usageQuota user) = -1 then -1
         else max 0 (promptsPerMonth (usageQuota user) - promptsUsed (usageQuota user))),
      qv_resetDate = resetDate (usageQuota user)\<rparr>"

text \<open>
  Lines 68 to 79: the usage event that is built. Its metadata are the properties of the
  request, with \<open>extensionVersion\<close> and \<open>source\<close> replaced by those of the user.
\<close>

definition newUsageEvent ::
  "int \<Rightarrow> string \<Rightarrow> TrackRequest \<Rightarrow> (string \<times> Json) list \<Rightarrow> UsageEventType \<Rightarrow> IUser
     \<Rightarrow> IUsageEvent" where
  "newUsageEvent now uuid req props ty user =
     \<lparr>ev_userId = req_userId req, ev_eventId = uuid, ev_type = ty,
      ev_feature = req_feature req, ev_timestamp = now,
      ev_metadata = filter (\<lambda>(k, v). k \<noteq> ''extensionVersion'' \<and> k \<noteq> ''source'') props,
      ev_extensionVersion = extensionVersion (metadata user),
      ev_source = source (metadata user)\<rparr>"

text \<open>
  Lines 46 to 65 for a user found at position \<open>i\<close>: \<open>Inl\<close> is the early return with 429,
  \<open>Inr\<close> the user and the database the handler goes on with.
\<close>

definition checkPromptLimit ::
  "int \<Rightarrow> UsageEventType \<Rightarrow> nat \<Rightarrow> IUser \<Rightarrow> Database \<Rightarrow> QuotaView + IUser \<times> Database" where
  "checkPromptLimit now ty i user db =
     (if ty = PROMPT \<or> ty = CHAT \<or> ty = AGENT then
        (let hasRemaining = (promptsPerMonth (usageQuota user) = -1
                \<or> promptsUsed (usageQuota user) < promptsPerMonth (usageQuota user))
         in if \<not> hasRemaining \<and> promptsPerMonth (usageQuota user) \<noteq> -1
            then Inl (limitExceededView user)
            else (let user' = user\<lparr>usageQuota := (usageQuota user)
                                   \<lparr>promptsUsed := promptsUsed (usageQuota user) + 1\<rparr>,
                                 metadata := (metadata user)\<lparr>lastActiveDate := Some now\<rparr>\<rparr>
                  in Inr (user', save i user' db)))
      else Inr (user, db))"

text \<open>
  The handler. \<open>now\<close> is the clock and \<open>uuid\<close> the value of \<open>uuidv4()\<close>. The result is
  the response and the database after the request.

  \<open>acceptsEvent\<close> stands for \<open>usageEvent.save()\<close> on line 81: Mongoose casts the
  document to \<open>UsageEventSchema\<close> (models/UsageEvent.ts) and inserts it. It is \<open>False\<close>
  when Mongoose rejects the document, as it does for a metadata field that cannot be cast
  to the type of the schema. The handler's \<open>catch\<close> then answers 500, after the user
  has been saved on line 64.
\<close>

definition track ::
  "(IUsageEvent \<Rightarrow> bool) \<Rightarrow> int \<Rightarrow> string \<Rightarrow> TrackRequest \<Rightarrow> Database
     \<Rightarrow> TrackResponse \<times> Database" where
  "track acceptsEvent now uuid req db =
     (case (parseUsageEventType (req_type req), metadataFields (req_metadata req)) of
        (Some ty, Some props) \<Rightarrow>
          if req_userId req = [] \<or> req_feature req = [] then (TrackValidationError, db)
          else (case findOne (\<lambda>u. userId u = req_userId req) (users db) of
              None \<Rightarrow> (TrackUserNotFound, db)
            | Some i \<Rightarrow>
                (let user = users db ! i
                 in if req_feature req \<notin> set (features user)
                    then (TrackFeatureNotAvailable, db)
                    else (case checkPromptLimit now ty i user db of
                        Inl view \<Rightarrow> (TrackUsageLimitExceeded view, db)
                      | Inr (user', db') \<Rightarrow>
                          (let usageEvent = newUsageEvent now uuid req props ty user'
                           in if acceptsEvent usageEvent
                              then (TrackSuccess uuid (trackQuotaView user'),
                                    db'\<lparr>usageEvents := usageEvents db' @ [usageEvent]\<rparr>)
                              else (TrackInternalError, db')))))
      | _ \<Rightarrow> (TrackValidationError, db))"

text \<open>A run of requests, each with its clock reading and its event id.\<close>

fun trackAll ::
  "(IUsageEvent \<Rightarrow> bool) \<Rightarrow> (int \<times> string \<times> TrackRequest) list \<Rightarrow> Database
     \<Rightarrow> TrackResponse list \<times> Database" where
  "trackAll acceptsEvent [] db = ([], db)"
| "trackAll acceptsEvent ((now, uuid, req) # rest) db =
     (let (r, db') = track acceptsEvent now uuid req db;
          (rs, db'') = trackAll acceptsEvent rest db'
      in (r # rs, db''))"

section \<open>Tier policy (\<open>getTierConfiguration\<close> in routes/subscription.ts and routes/webhooks.ts)\<close>

record TierConfiguration =
  cfg_promptsPerMonth :: int
  cfg_features :: "string list"

text \<open>
  The two files hold the same function, so one definition stands for both. Its
  \<open>default\<close> branch returns the configuration of \<open>FAN\<close>; no value of the enum reaches it.
\<close>

fun getTierConfiguration :: "SubscriptionTier \<Rightarrow> TierConfiguration" where
  "getTierConfiguration FAN =
     \<lparr>cfg_promptsPerMonth = 75, cfg_features = [''chat'', ''agent'', ''codeCompletion'']\<rparr>"
| "getTierConfiguration DEVELOPER =
     \<lparr>cfg_promptsPerMonth = -1,
      cfg_features = [''chat'', ''agent'', ''codeCompletion'', ''dependencyVisualization'',
                      ''knowledgeBase'']\<rparr>"
| "getTierConfiguration ENTERPRISE =
     \<lparr>cfg_promptsPerMonth = -1,
      cfg_features = [''chat'', ''agent'', ''codeCompletion'', ''dependencyVisualization'',
                      ''knowledgeBase'', ''fineTuning'', ''rbac'', ''auditLogging'', ''sso'']\<rparr>"

text \<open>\<open>Object.values(SubscriptionTier)\<close> and \<open>Object.values(SubscriptionStatus)\<close>.\<close>

definition parseSubscriptionTier :: "string \<Rightarrow> SubscriptionTier option" where
  "parseSubscriptionTier s =
     map_of [(''fan'', FAN), (''developer'', DEVELOPER), (''enterprise'', ENTERPRISE)] s"

definition parseSubscriptionStatus :: "string \<Rightarrow> SubscriptionStatus option" where
  "parseSubscriptionStatus s =
     map_of [(''active'', ACTIVE), (''inactive'', INACTIVE), (''cancelled'', CANCELLED),
             (''expired'', EXPIRED), (''trial'', TRIAL)] s"

section \<open>Subscription routes (routes/subscription.ts)\<close>

text \<open>The part of a response that every subscription route sends.\<close>

record UserSummary =
  us_userId :: string
  us_tier :: SubscriptionTier
  us_status :: SubscriptionStatus
  us_features :: "string list"
  us_usageQuota :: QuotaView

text \<open>The \<open>usageQuota\<close> of the responses of /verify, /update/:userId and /:userId.\<close>

definition subscriptionQuotaView :: "IUser \<Rightarrow> QuotaView" where
  "subscriptionQuotaView user =
     \<lparr>qv_promptsPerMonth = promptsPerMonth (usageQuota user),
      qv_promptsUsed = promptsUsed (usageQuota user),
      qv_promptsRemaining = promptsPerMonth (usageQuota user) - promptsUsed (usageQuota user),
      qv_resetDate = resetDate (usageQuota user)\<rparr>"

definition userSummary :: "IUser \<Rightarrow> UserSummary" where
  "userSummary user =
     \<lparr>us_userId = userId user, us_tier = tier (subscription user),
      us_status = status (subscription user), us_features = features user,
      us_usageQuota = subscriptionQuotaView user\<rparr>"

text \<open>
  \<open>isTrialActive && trialEndDate && trialEndDate > new Date()\<close>, read as a truth value.
\<close>

definition trialActiveAt :: "int \<Rightarrow> IUser \<Rightarrow> bool" where
  "trialActiveAt now user =
     (isTrialActive (subscription user)
      \<and> (case trialEndDate (subscription user) of None \<Rightarrow> False | Some d \<Rightarrow> now < d))"

text \<open>\<open>status === ACTIVE && (!endDate || endDate > new Date())\<close>.\<close>

definition activeAt :: "int \<Rightarrow> IUser \<Rightarrow> bool" where
  "activeAt now user =
     (status (subscription user) = ACTIVE
      \<and> (case endDate (subscription user) of None \<Rightarrow> True | Some d \<Rightarrow> now < d))"

subsection \<open>POST /verify\<close>

record VerifyRequest =
  vr_userId :: string
  vr_extensionVersion :: "string option"
  vr_source :: "string option"

datatype VerifyResponse =
  VerifyValidationError
  | VerifyOK bool UserSummary bool "int option"

fun verifyStatus :: "VerifyResponse \<Rightarrow> nat" where
  "verifyStatus VerifyValidationError = 400"
| "verifyStatus (VerifyOK _ _ _ _) = 200"

text \<open>Lines 31 to 50: the user made on the first verification.\<close>

definition newVerifyUser :: "int \<Rightarrow> VerifyRequest \<Rightarrow> IUser" where
  "newVerifyUser now req =
     \<lparr>userId = vr_userId req, email = None, apiKey = None,
      subscription = \<lparr>tier = FAN, status = ACTIVE, startDate = now, endDate = None,
        renewalDate = None, goDaddySubscriptionId = None, goDaddyCustomerId = None,
        paymentMethodId = None, trialEndDate = None, isTrialActive = False\<rparr>,
      usageQuota = \<lparr>promptsPerMonth = 75, promptsUsed = 0, resetDate = now + thirtyDays,
        lastResetDate = None\<rparr>,
      features = [''chat'', ''agent'', ''codeCompletion''],
      metadata = \<lparr>extensionVersion = vr_extensionVersion req, lastActiveDate = Some now,
        installationId = None, source = vr_source req\<rparr>\<rparr>"

text \<open>Lines 55 to 58.\<close>

definition updateMetadata :: "int \<Rightarrow> VerifyRequest \<Rightarrow> IUser \<Rightarrow> IUser" where
  "updateMetadata now req user =
     user\<lparr>metadata := (metadata user)
       \<lparr>lastActiveDate := Some now,
        extensionVersion := (if truthy (vr_extensionVersion req) then vr_extensionVersion req
                             else extensionVersion (metadata user)),
        source := (if truthy (vr_source req) then vr_source req
                   else source (metadata user))\<rparr>\<rparr>"

text \<open>Lines 60 to 64: "Check if usage quota needs reset".\<close>

definition quotaRollover :: "int \<Rightarrow> IUser \<Rightarrow> IUser" where
  "quotaRollover now user =
     (if resetDate (usageQuota user) < now
      then user\<lparr>usageQuota := (usageQuota user)\<lparr>promptsUsed := 0,
                                                resetDate := now + thirtyDays\<rparr>\<rparr>
      else user)"

text \<open>
  Lines 69 to 84. \<open>goDaddyVerify\<close> stands for \<open>goDaddyService.verifySubscription\<close>, a
  call to the billing provider: \<open>Some isActive\<close> when it answers, \<open>None\<close> when it
  throws (the handler logs and goes on).
\<close>

definition syncGoDaddyStatus ::
  "(string \<Rightarrow> bool option) \<Rightarrow> nat \<Rightarrow> IUser \<Rightarrow> Database \<Rightarrow> IUser \<times> Database" where
  "syncGoDaddyStatus goDaddyVerify i user db =
     (case goDaddySubscriptionId (subscription user) of
        None \<Rightarrow> (user, db)
      | Some sid \<Rightarrow>
          if sid = [] then (user, db)
          else (case goDaddyVerify sid of
              None \<Rightarrow> (user, db)
            | Some isActive \<Rightarrow>
                if isActive \<noteq> (status (subscription user) = ACTIVE)
                then (let user' = user\<lparr>subscription := (subscription user)
                                  \<lparr>status := (if isActive then ACTIVE else INACTIVE)\<rparr>\<rparr>
                      in (user', save i user' db))
                else (user, db)))"

definition verify ::
  "(string \<Rightarrow> bool option) \<Rightarrow> int \<Rightarrow> VerifyRequest \<Rightarrow> Database \<Rightarrow> VerifyResponse \<times> Database"
  where
  "verify goDaddyVerify now req db =
     (if vr_userId req = [] then (VerifyValidationError, db)
      else
        (let (i, user1, db1) =
               (case findOne (\<lambda>u. userId u = vr_userId req) (users db) of
                  None \<Rightarrow>
                    (let user = newVerifyUser now req
                     in (length (users db), user, saveNew user db))
                | Some i \<Rightarrow>
                    (let user = quotaRollover now (updateMetadata now req (users db ! i))
                     in (i, user, save i user db)));
             (user2, db2) = syncGoDaddyStatus goDaddyVerify i user1 db1;
             isActive = activeAt now user2;
             isTrial = trialActiveAt now user2
         in (VerifyOK (isActive \<or> isTrial) (userSummary user2) isTrial
               (trialEndDate (subscription user2)), db2)))"

subsection \<open>PUT /update/:userId\<close>

record UpdateRequest =
  ur_userId :: string
  ur_tier :: string
  ur_status :: string
  ur_goDaddySubscriptionId :: "string option"
  ur_goDaddyCustomerId :: "string option"

datatype UpdateResponse =
  UpdateValidationError
  | UpdateUserNotFound
  | UpdateOK UserSummary

fun updateStatus :: "UpdateResponse \<Rightarrow> nat" where
  "updateStatus UpdateValidationError = 400"
| "updateStatus UpdateUserNotFound = 404"
| "updateStatus (UpdateOK _) = 200"

text \<open>Lines 148 to 163 on the user that was found.\<close>

definition applyUpdate ::
  "SubscriptionTier \<Rightarrow> SubscriptionStatus \<Rightarrow> UpdateRequest \<Rightarrow> IUser \<Rightarrow> IUser" where
  "applyUpdate t st req user =
     (let tierConfig = getTierConfiguration t
      in user\<lparr>subscription := (subscription user)
                \<lparr>tier := t, status := st,
                 goDaddySubscriptionId :=
                   (if truthy (ur_goDaddySubscriptionId req) then ur_goDaddySubscriptionId req
                    else goDaddySubscriptionId (subscription user)),
                 goDaddyCustomerId :=
                   (if truthy (ur_goDaddyCustomerId req) then ur_goDaddyCustomerId req
                    else goDaddyCustomerId (subscription user))\<rparr>,
              features := cfg_features tierConfig,
              usageQuota := (usageQuota user)
                \<lparr>promptsPerMonth := cfg_promptsPerMonth tierConfig\<rparr>\<rparr>)"

definition updateSubscription :: "UpdateRequest \<Rightarrow> Database \<Rightarrow> UpdateResponse \<times> Database" where
  "updateSubscription req db =
     (case (parseSubscriptionTier (ur_tier req), parseSubscriptionStatus (ur_status req)) of
        (Some t, Some st) \<Rightarrow>
          if ur_userId req = [] then (UpdateValidationError, db)
          else (case findOne (\<lambda>u. userId u = ur_userId req) (users db) of
              None \<Rightarrow> (UpdateUserNotFound, db)
            | Some i \<Rightarrow>
                (let user = applyUpdate t st req (users db ! i)
                 in (UpdateOK (userSummary user), save i user db)))
      | _ \<Rightarrow> (UpdateValidationError, db))"

subsection \<open>GET /:userId\<close>

datatype GetResponse =
  GetValidationError
  | GetUserNotFound
  | GetOK UserSummary bool "int option" "int option"

definition getSubscription :: "int \<Rightarrow> string \<Rightarrow> Database \<Rightarrow> GetResponse" where
  "getSubscription now uid db =
     (if uid = [] then GetValidationError
      else (case findOne (\<lambda>u. userId u = uid) (users db) of
          None \<Rightarrow> GetUserNotFound
        | Some i \<Rightarrow>
            (let user = users db ! i
             in GetOK (userSummary user) (trialActiveAt now user)
                  (trialEndDate (subscription user)) (renewalDate (subscription user)))))"

section \<open>Billing webhooks (routes/webhooks.ts)\<close>

text \<open>
  The fields of \<open>event.data\<close> that the handlers read. \<open>wd_userId\<close> is
  \<open>metadata?.userId\<close>, \<open>wd_status\<close> is \<open>status\<close>. The fields that are only logged
  (\<open>amount\<close>, \<open>currency\<close>, \<open>reason\<close>) are left out.
\<close>

record WebhookData =
  wd_subscriptionId :: "string option"
  wd_customerId :: "string option"
  wd_planId :: "string option"
  wd_customerEmail :: "string option"
  wd_userId :: "string option"
  wd_status :: "string option"

text \<open>
  The parsed event. Without \<open>event.data\<close> a handler throws at its first line, inside
  its own \<open>try\<close>, and changes nothing.
\<close>

record WebhookEvent =
  we_type :: string
  we_data :: "WebhookData option"

fun mapPlanIdToTier :: "string option \<Rightarrow> SubscriptionTier" where
  "mapPlanIdToTier planId =
     (if planId = Some ''scale-fan'' then FAN
      else if planId = Some ''scale-developer'' then DEVELOPER
      else if planId = Some ''scale-enterprise'' then ENTERPRISE
      else FAN)"

text \<open>\<open>String.prototype.toLowerCase\<close> on the ASCII letters.\<close>

definition toLowerCase :: "string \<Rightarrow> string" where
  "toLowerCase s =
     map (\<lambda>c. if 65 \<le> (of_char c :: nat) \<and> (of_char c :: nat) \<le> 90
               then char_of ((of_char c :: nat) + 32) else c) s"

definition mapGoDaddyStatusToSubscriptionStatus :: "string \<Rightarrow> SubscriptionStatus" where
  "mapGoDaddyStatusToSubscriptionStatus st =
     (let l = toLowerCase st
      in if l = ''active'' then ACTIVE
         else if l = ''cancelled'' then CANCELLED
         else if l = ''expired'' then EXPIRED
         else if l = ''inactive'' then INACTIVE
         else INACTIVE)"

text \<open>
  The filter \<open>{'subscription.goDaddySubscriptionId': subscriptionId}\<close>. A missing
  \<open>subscriptionId\<close> is sent as \<open>null\<close>, which matches the documents without the field.
\<close>

definition bySubscriptionId :: "string option \<Rightarrow> IUser \<Rightarrow> bool" where
  "bySubscriptionId sid user = (goDaddySubscriptionId (subscription user) = sid)"

text \<open>Lines 80 to 95: the user made by the first \<open>subscription.created\<close> event.\<close>

definition newWebhookUser :: "int \<Rightarrow> string \<Rightarrow> string option \<Rightarrow> IUser" where
  "newWebhookUser now uid customerEmail =
     \<lparr>userId = uid, email = customerEmail, apiKey = None,
      subscription = \<lparr>tier = FAN, status = ACTIVE, startDate = now, endDate = None,
        renewalDate = None, goDaddySubscriptionId = None, goDaddyCustomerId = None,
        paymentMethodId = None, trialEndDate = None, isTrialActive = False\<rparr>,
      usageQuota = \<lparr>promptsPerMonth = 75, promptsUsed = 0, resetDate = now + thirtyDays,
        lastResetDate = None\<rparr>,
      features = [''chat'', ''agent'', ''codeCompletion''],
      metadata = \<lparr>extensionVersion = None, lastActiveDate = Some now,
        installationId = None, source = None\<rparr>\<rparr>"

text \<open>Lines 98 to 113 on the user that was found or made.\<close>

definition applyCreated :: "int \<Rightarrow> WebhookData \<Rightarrow> IUser \<Rightarrow> IUser" where
  "applyCreated now d user =
     (let t = mapPlanIdToTier (wd_planId d);
          tierConfig = getTierConfiguration t
      in user\<lparr>subscription := (subscription user)
                \<lparr>tier := t, status := ACTIVE,
                 goDaddySubscriptionId := wd_subscriptionId d,
                 goDaddyCustomerId := wd_customerId d,
                 startDate := now, isTrialActive := False\<rparr>,
              email := (if truthy (wd_customerEmail d) then wd_customerEmail d else email user),
              features := cfg_features tierConfig,
              usageQuota := (usageQuota user)
                \<lparr>promptsPerMonth := cfg_promptsPerMonth tierConfig\<rparr>\<rparr>)"

definition handleSubscriptionCreated :: "int \<Rightarrow> WebhookData \<Rightarrow> Database \<Rightarrow> Database" where
  "handleSubscriptionCreated now d db =
     (case wd_userId d of
        None \<Rightarrow> db
      | Some uid \<Rightarrow>
          if uid = [] then db
          else (case findOne (\<lambda>u. userId u = uid) (users db) of
              None \<Rightarrow> saveNew (applyCreated now d (newWebhookUser now uid (wd_customerEmail d))) db
            | Some i \<Rightarrow> save i (applyCreated now d (users db ! i)) db))"

text \<open>Lines 134 to 148 on the user that was found.\<close>

definition applyUpdated :: "WebhookData \<Rightarrow> IUser \<Rightarrow> IUser" where
  "applyUpdated d user =
     (let user1 =
            (if truthy (wd_planId d)
             then (let newTier = mapPlanIdToTier (wd_planId d);
                       tierConfig = getTierConfiguration newTier
                   in user\<lparr>subscription := (subscription user)\<lparr>tier := newTier\<rparr>,
                           features := cfg_features tierConfig,
                           usageQuota := (usageQuota user)
                             \<lparr>promptsPerMonth := cfg_promptsPerMonth tierConfig\<rparr>\<rparr>)
             else user)
      in case wd_status d of
           None \<Rightarrow> user1
         | Some st \<Rightarrow>
             if st = [] then user1
             else user1\<lparr>subscription := (subscription user1)
                          \<lparr>status := mapGoDaddyStatusToSubscriptionStatus st\<rparr>\<rparr>)"

definition handleSubscriptionUpdated :: "WebhookData \<Rightarrow> Database \<Rightarrow> Database" where
  "handleSubscriptionUpdated d db =
     (case findOne (bySubscriptionId (wd_subscriptionId d)) (users db) of
        None \<Rightarrow> db
      | Some i \<Rightarrow> save i (applyUpdated d (users db ! i)) db)"

definition handleSubscriptionCancelled :: "int \<Rightarrow> WebhookData \<Rightarrow> Database \<Rightarrow> Database" where
  "handleSubscriptionCancelled now d db =
     (case findOne (bySubscriptionId (wd_subscriptionId d)) (users db) of
        None \<Rightarrow> db
      | Some i \<Rightarrow>
          (let user = users db ! i
           in save i (user\<lparr>subscription := (subscription user)
                             \<lparr>status := CANCELLED, endDate := Some now\<rparr>\<rparr>) db))"

text \<open>Lines 191 to 198 on the user that was found.\<close>

definition applyExpired :: "int \<Rightarrow> IUser \<Rightarrow> IUser" where
  "applyExpired now user =
     (let tierConfig = getTierConfiguration FAN
      in user\<lparr>subscription := (subscription user)
                \<lparr>status := EXPIRED, endDate := Some now, tier := FAN\<rparr>,
              features := cfg_features tierConfig,
              usageQuota := (usageQuota user)
                \<lparr>promptsPerMonth := cfg_promptsPerMonth tierConfig\<rparr>\<rparr>)"

definition handleSubscriptionExpired :: "int \<Rightarrow> WebhookData \<Rightarrow> Database \<Rightarrow> Database" where
  "handleSubscriptionExpired now d db =
     (case findOne (bySubscriptionId (wd_subscriptionId d)) (users db) of
        None \<Rightarrow> db
      | Some i \<Rightarrow> save i (applyExpired now (users db ! i)) db)"

definition handlePaymentSucceeded :: "int \<Rightarrow> WebhookData \<Rightarrow> Database \<Rightarrow> Database" where
  "handlePaymentSucceeded now d db =
     (case findOne (bySubscriptionId (wd_subscriptionId d)) (users db) of
        None \<Rightarrow> db
      | Some i \<Rightarrow>
          (let user = users db ! i
           in save i (user\<lparr>subscription := (subscription user)
                             \<lparr>renewalDate := Some (now + thirtyDays), status := ACTIVE\<rparr>\<rparr>) db))"

definition handlePaymentFailed :: "WebhookData \<Rightarrow> Database \<Rightarrow> Database" where
  "handlePaymentFailed d db =
     (case findOne (bySubscriptionId (wd_subscriptionId d)) (users db) of
        None \<Rightarrow> db
      | Some i \<Rightarrow>
          (let user = users db ! i
           in save i (user\<lparr>subscription := (subscription user)\<lparr>status := INACTIVE\<rparr>\<rparr>) db))"

text \<open>The \<open>switch\<close> on \<open>event.type\<close> (lines 31 to 52).\<close>

definition processEvent :: "int \<Rightarrow> WebhookEvent \<Rightarrow> Database \<Rightarrow> Database" where
  "processEvent now event db =
     (case we_data event of
        None \<Rightarrow> db
      | Some d \<Rightarrow>
          if we_type event = ''subscription.created'' then handleSubscriptionCreated now d db
          else if we_type event = ''subscription.updated'' then handleSubscriptionUpdated d db
          else if we_type event = ''subscription.cancelled''
            then handleSubscriptionCancelled now d db
          else if we_type event = ''subscription.expired'' then handleSubscriptionExpired now d db
          else if we_type event = ''payment.succeeded'' then handlePaymentSucceeded now d db
          else if we_type event = ''payment.failed'' then handlePaymentFailed d db
          else db)"

subsection \<open>POST /godaddy/subscription\<close>

text \<open>
  \<open>sigHeader\<close> is the header \<open>x-godaddy-signature\<close> and \<open>rawBody\<close> the bytes of the
  request, as the route's \<open>express.raw\<close> hands them over.
\<close>

record WebhookRequest =
  sigHeader :: "string option"
  rawBody :: string

datatype WebhookResponse =
  WebhookReceived
  | WebhookInvalidSignature
  | WebhookProcessingFailed

fun webhookStatus :: "WebhookResponse \<Rightarrow> nat" where
  "webhookStatus WebhookReceived = 200"
| "webhookStatus WebhookInvalidSignature = 401"
| "webhookStatus WebhookProcessingFailed = 500"

text \<open>
  Lines 15 to 25. \<open>hmac secret payload\<close> stands for
  \<open>crypto.createHmac('sha256', secret).update(payload).digest('hex')\<close>, a function of
  Node's library.
\<close>

definition signatureRejected ::
  "(string \<Rightarrow> string \<Rightarrow> string) \<Rightarrow> string option \<Rightarrow> WebhookRequest \<Rightarrow> bool" where
  "signatureRejected hmac webhookSecret req =
     (case webhookSecret of
        None \<Rightarrow> False
      | Some secret \<Rightarrow>
          (case sigHeader req of
             None \<Rightarrow> False
           | Some signature \<Rightarrow>
               secret \<noteq> [] \<and> signature \<noteq> [] \<and> signature \<noteq> hmac secret (rawBody req)))"

text \<open>
  The handler. \<open>webhookSecret\<close> is \<open>process.env.GODADDY_WEBHOOK_SECRET\<close>;
  \<open>parseJSON\<close> stands for \<open>JSON.parse(req.body.toString())\<close> followed by the reads of
  the event's fields, \<open>None\<close> when that throws (the handler's \<open>catch\<close> answers 500).
\<close>

definition godaddySubscription ::
  "(string \<Rightarrow> string \<Rightarrow> string) \<Rightarrow> (string \<Rightarrow> WebhookEvent option) \<Rightarrow> string option
     \<Rightarrow> int \<Rightarrow> WebhookRequest \<Rightarrow> Database \<Rightarrow> WebhookResponse \<times> Database" where
  "godaddySubscription hmac parseJSON webhookSecret now req db =
     (if signatureRejected hmac webhookSecret req then (WebhookInvalidSignature, db)
      else (case parseJSON (rawBody req) of
          None \<Rightarrow> (WebhookProcessingFailed, db)
        | Some event \<Rightarrow> (WebhookReceived, processEvent now event db)))"

text \<open>\<open>GoDaddyService.validateWebhookSignature\<close> (services/goDaddyService.ts).\<close>

definition validateWebhookSignature ::
  "(string \<Rightarrow> string \<Rightarrow> string) \<Rightarrow> string \<Rightarrow> string \<Rightarrow> string \<Rightarrow> bool" where
  "validateWebhookSignature hmac payload signature secret = (signature = hmac secret payload)"

section \<open>Predicates of the statements\<close>

text \<open>
  A request of user \<open>uid\<close> that passes validation, has a quota-counted type and names a
  feature among \<open>fs\<close>.
\<close>

definition countedCall :: "string \<Rightarrow> string list \<Rightarrow> TrackRequest \<Rightarrow> bool" where
  "countedCall uid fs req =
     (req_userId req = uid \<and> req_type req \<in> {''prompt'', ''chat'', ''agent''}
      \<and> req_feature req \<noteq> [] \<and> metadataFields (req_metadata req) \<noteq> None
      \<and> req_feature req \<in> set fs)"

text \<open>
  The usage event of the call \<open>(now, uuid, req)\<close>, built for \<open>user\<close>, is one that
  \<open>acceptsEvent\<close> stores.
\<close>

definition eventStored ::
  "(IUsageEvent \<Rightarrow> bool) \<Rightarrow> IUser \<Rightarrow> int \<times> string \<times> TrackRequest \<Rightarrow> bool" where
  "eventStored acceptsEvent user call =
     (case call of (now, uuid, req) \<Rightarrow>
        (case (parseUsageEventType (req_type req), metadataFields (req_metadata req)) of
           (Some ty, Some props) \<Rightarrow> acceptsEvent (newUsageEvent now uuid req props ty user)
         | _ \<Rightarrow> False))"

text \<open>
  \<open>new\<close> carries tier \<open>t\<close> with the features and the quota of the tier policy, and the
  counter of \<open>old\<close>.
\<close>

definition tierApplied :: "SubscriptionTier \<Rightarrow> IUser \<Rightarrow> IUser \<Rightarrow> bool" where
  "tierApplied t old new =
     (tier (subscription new) = t
      \<and> features new = cfg_features (getTierConfiguration t)
      \<and> promptsPerMonth (usageQuota new) = cfg_promptsPerMonth (getTierConfiguration t)
      \<and> promptsUsed (usageQuota new) = promptsUsed (usageQuota old))"

section \<open>Sample data\<close>

definition sampleVerifyRequest :: VerifyRequest where
  "sampleVerifyRequest =
     \<lparr>vr_userId = ''u1'', vr_extensionVersion = Some ''1.0.0'', vr_source = None\<rparr>"

text \<open>The user that the first verification at time 0 makes.\<close>

definition sampleUser :: IUser where
  "sampleUser = newVerifyUser 0 sampleVerifyRequest"

definition sampleDb :: Database where
  "sampleDb = \<lparr>users = [sampleUser], usageEvents = []\<rparr>"

definition emptyDb :: Database where
  "emptyDb = \<lparr>users = [], usageEvents = []\<rparr>"

text \<open>The same user with one prompt left, and with none.\<close>

definition nearLimitDb :: Database where
  "nearLimitDb =
     \<lparr>users = [sampleUser\<lparr>usageQuota := (usageQuota sampleUser)\<lparr>promptsUsed := 74\<rparr>\<rparr>],
      usageEvents = []\<rparr>"

definition exhaustedUser :: IUser where
  "exhaustedUser = sampleUser\<lparr>usageQuota := (usageQuota sampleUser)\<lparr>promptsUsed := 75\<rparr>\<rparr>"

definition exhaustedDb :: Database where
  "exhaustedDb = \<lparr>users = [exhaustedUser], usageEvents = []\<rparr>"

definition sampleCreated :: WebhookData where
  "sampleCreated =
     \<lparr>wd_subscriptionId = Some ''sub_1'', wd_customerId = Some ''cus_1'',
      wd_planId = Some ''scale-developer'', wd_customerEmail = Some ''u1@example.org'',
      wd_userId = Some ''u1'', wd_status = None\<rparr>"

text \<open>The user after \<open>subscription.created\<close> for the developer plan and 120 prompts.\<close>

definition sampleDeveloper :: IUser where
  "sampleDeveloper =
     (let user = applyCreated 10 sampleCreated sampleUser
      in user\<lparr>usageQuota := (usageQuota user)\<lparr>promptsUsed := 120\<rparr>\<rparr>)"

definition developerDb :: Database where
  "developerDb = \<lparr>users = [sampleDeveloper], usageEvents = []\<rparr>"

definition chatRequest :: TrackRequest where
  "chatRequest =
     \<lparr>req_userId = ''u1'', req_type = ''chat'', req_feature = ''chat'', req_metadata = None\<rparr>"

definition completionRequest :: TrackRequest where
  "completionRequest =
     \<lparr>req_userId = ''u1'', req_type = ''code_completion'', req_feature = ''codeCompletion'',
      req_metadata = None\<rparr>"

text \<open>A chat request for a feature that the fan tier does not have.\<close>

definition knowledgeBaseChat :: TrackRequest where
  "knowledgeBaseChat =
     \<lparr>req_userId = ''u1'', req_type = ''chat'', req_feature = ''knowledgeBase'',
      req_metadata = None\<rparr>"

text \<open>A chat request whose \<open>tokensUsed\<close> is not a number.\<close>

definition badMetadataChat :: TrackRequest where
  "badMetadataChat =
     \<lparr>req_userId = ''u1'', req_type = ''chat'', req_feature = ''chat'',
      req_metadata = Some (JObj [(''tokensUsed'', JStr ''abc'')])\<rparr>"

text \<open>
  A store for the samples: it refuses the event whose \<open>tokensUsed\<close> is the string
  \<open>abc\<close> and takes every other one.
\<close>

definition sampleStore :: "IUsageEvent \<Rightarrow> bool" where
  "sampleStore ev = ((''tokensUsed'', JStr ''abc'') \<notin> set (ev_metadata ev))"

text \<open>Seventy-five chat requests, one per millisecond, each with its own event id.\<close>

definition seventyFiveCalls :: "(int \<times> string \<times> TrackRequest) list" where
  "seventyFiveCalls = map (\<lambda>k. (int k, replicate (Suc k) CHR ''e'', chatRequest)) [0..<75]"

definition threeCalls :: "(int \<times> string \<times> TrackRequest) list" where
  "threeCalls = [(5, ''e1'', chatRequest), (6, ''e2'', chatRequest), (7, ''e3'', chatRequest)]"

definition sampleUpdate :: UpdateRequest where
  "sampleUpdate =
     \<lparr>ur_userId = ''u1'', ur_tier = ''enterprise'', ur_status = ''active'',
      ur_goDaddySubscriptionId = None, ur_goDaddyCustomerId = None\<rparr>"

definition samplePlanChange :: WebhookData where
  "samplePlanChange =
     \<lparr>wd_subscriptionId = Some ''sub_1'', wd_customerId = None,
      wd_planId = Some ''scale-fan'', wd_customerEmail = None,
      wd_userId = None, wd_status = Some ''ACTIVE''\<rparr>"

definition sampleExpiredData :: WebhookData where
  "sampleExpiredData =
     \<lparr>wd_subscriptionId = Some ''sub_1'', wd_customerId = None, wd_planId = None,
      wd_customerEmail = None, wd_userId = None, wd_status = None\<rparr>"

definition sampleExpired :: WebhookEvent where
  "sampleExpired = \<lparr>we_type = ''subscription.expired'', we_data = Some sampleExpiredData\<rparr>"

definition unsignedRequest :: WebhookRequest where
  "unsignedRequest = \<lparr>sigHeader = None, rawBody = ''{}''\<rparr>"

lemmas sample_defs =
  sampleVerifyRequest_def sampleUser_def sampleDb_def emptyDb_def nearLimitDb_def
  exhaustedUser_def exhaustedDb_def sampleCreated_def sampleDeveloper_def developerDb_def
  chatRequest_def completionRequest_def knowledgeBaseChat_def badMetadataChat_def
  sampleStore_def sampleUpdate_def samplePlanChange_def
  sampleExpiredData_def sampleExpired_def unsignedRequest_def newVerifyUser_def
  applyCreated_def thirtyDays_def Let_def

section \<open>Facts about \<open>findOne\<close>\<close>

lemma findOne_Some:
  "findOne P xs = Some i \<Longrightarrow> i < length xs \<and> P (xs ! i)"
proof (induction xs arbitrary: i)
  case Nil
  then show ?case by simp
next
  case (Cons x xs)
  then show ?case by (auto split: if_splits)
qed

lemma findOne_update:
  "findOne P xs = Some i \<Longrightarrow> P y \<Longrightarrow> findOne P (xs[i := y]) = Some i"
proof (induction xs arbitrary: i)
  case Nil
  then show ?case by simp
next
  case (Cons x xs)
  then show ?case by (cases i) (auto split: if_splits)
qed

section \<open>The steps of /track\<close>

lemma parse_prompt_types:
  "s \<in> {''prompt'', ''chat'', ''agent''} \<Longrightarrow>
     \<exists>ty. parseUsageEventType s = Some ty \<and> promptBased ty"
  by (auto simp: parseUsageEventType_def promptBased_def)

lemma parse_other_types:
  "s \<in> {''code_completion'', ''dependency_visualization'', ''knowledge_base'', ''fine_tuning''}
     \<Longrightarrow> \<exists>ty. parseUsageEventType s = Some ty \<and> \<not> promptBased ty"
  by (auto simp: parseUsageEventType_def promptBased_def)

lemma countedCall_parse:
  "countedCall uid fs req \<Longrightarrow>
     \<exists>ty props. parseUsageEventType (req_type req) = Some ty \<and> promptBased ty
        \<and> metadataFields (req_metadata req) = Some props"
  unfolding countedCall_def using parse_prompt_types by blast

lemma checkPromptLimit_other:
  "\<not> promptBased ty \<Longrightarrow> checkPromptLimit now ty i user db = Inr (user, db)"
  by (simp add: checkPromptLimit_def promptBased_def)

text \<open>The handler's own increment is the schema's \<open>incrementPromptUsage\<close>.\<close>

lemma checkPromptLimit_ok:
  "promptBased ty \<Longrightarrow> hasRemainingPrompts user \<Longrightarrow>
   checkPromptLimit now ty i user db
     = Inr (incrementPromptUsage now user, save i (incrementPromptUsage now user) db)"
  by (auto simp: checkPromptLimit_def promptBased_def hasRemainingPrompts_def
      incrementPromptUsage_def Let_def)

lemma checkPromptLimit_exceeded:
  "promptBased ty \<Longrightarrow> \<not> hasRemainingPrompts user \<Longrightarrow>
   checkPromptLimit now ty i user db = Inl (limitExceededView user)"
  by (auto simp: checkPromptLimit_def promptBased_def hasRemainingPrompts_def Let_def)

lemma incrementPromptUsage_fields:
  "userId (incrementPromptUsage now u) = userId u"
  "features (incrementPromptUsage now u) = features u"
  "promptsPerMonth (usageQuota (incrementPromptUsage now u)) = promptsPerMonth (usageQuota u)"
  "promptsUsed (usageQuota (incrementPromptUsage now u)) = promptsUsed (usageQuota u) + 1"
  "resetDate (usageQuota (incrementPromptUsage now u)) = resetDate (usageQuota u)"
  "extensionVersion (metadata (incrementPromptUsage now u)) = extensionVersion (metadata u)"
  "source (metadata (incrementPromptUsage now u)) = source (metadata u)"
  by (simp_all add: incrementPromptUsage_def)

text \<open>The event reads the version and the source of the user and nothing else.\<close>

lemma newUsageEvent_cong:
  "extensionVersion (metadata u) = extensionVersion (metadata u') \<Longrightarrow>
   source (metadata u) = source (metadata u') \<Longrightarrow>
   newUsageEvent now uuid req props ty u = newUsageEvent now uuid req props ty u'"
  by (simp add: newUsageEvent_def)

lemma eventStored_cong:
  "extensionVersion (metadata u) = extensionVersion (metadata u') \<Longrightarrow>
   source (metadata u) = source (metadata u') \<Longrightarrow>
   eventStored acceptsEvent u call = eventStored acceptsEvent u' call"
  by (simp add: eventStored_def newUsageEvent_def split: prod.splits option.splits)

text \<open>A request leaves the users as they are or increments one that has prompts left.\<close>

lemma track_users:
  "users (snd (track acceptsEvent now uuid req db)) = users db
   \<or> (\<exists>i. i < length (users db) \<and> hasRemainingPrompts (users db ! i)
         \<and> users (snd (track acceptsEvent now uuid req db))
             = (users db)[i := incrementPromptUsage now (users db ! i)])"
proof (cases "parseUsageEventType (req_type req)")
  case None
  then show ?thesis by (simp add: track_def)
next
  case ty: (Some ty)
  show ?thesis
  proof (cases "metadataFields (req_metadata req)")
    case None
    with ty show ?thesis by (simp add: track_def)
  next
    case props: (Some props)
    show ?thesis
    proof (cases "findOne (\<lambda>u. userId u = req_userId req) (users db)")
      case None
      with ty props show ?thesis by (simp add: track_def)
    next
      case (Some i)
      then have i: "i < length (users db)" by (simp add: findOne_Some)
      show ?thesis
      proof (cases "promptBased ty")
        case False
        with ty props Some show ?thesis
          by (simp add: track_def Let_def checkPromptLimit_other)
      next
        case True
        show ?thesis
        proof (cases "hasRemainingPrompts (users db ! i)")
          case False
          with True ty props Some show ?thesis
            by (simp add: track_def Let_def checkPromptLimit_exceeded)
        next
          case rem: True
          with True ty props Some i show ?thesis
            by (auto simp: track_def Let_def checkPromptLimit_ok save_def)
        qed
      qed
    qed
  qed
qed

lemma track_success_step:
  assumes "parseUsageEventType (req_type req) = Some ty" and "promptBased ty"
    and "metadataFields (req_metadata req) = Some props"
    and "req_userId req \<noteq> []" and "req_feature req \<noteq> []"
    and "findOne (\<lambda>u. userId u = req_userId req) (users db) = Some i"
    and "req_feature req \<in> set (features (users db ! i))"
    and "hasRemainingPrompts (users db ! i)"
    and "acceptsEvent (newUsageEvent now uuid req props ty
           (incrementPromptUsage now (users db ! i)))"
  shows "track acceptsEvent now uuid req db =
    (TrackSuccess uuid (trackQuotaView (incrementPromptUsage now (users db ! i))),
     (save i (incrementPromptUsage now (users db ! i)) db)
       \<lparr>usageEvents := usageEvents db
           @ [newUsageEvent now uuid req props ty
                (incrementPromptUsage now (users db ! i))]\<rparr>)"
  using assms by (simp add: track_def Let_def checkPromptLimit_ok save_def)

text \<open>
  When the event is refused the answer is 500; the user has been saved with the counter
  incremented and no event is stored.
\<close>

lemma track_rejected_step:
  assumes "parseUsageEventType (req_type req) = Some ty" and "promptBased ty"
    and "metadataFields (req_metadata req) = Some props"
    and "req_userId req \<noteq> []" and "req_feature req \<noteq> []"
    and "findOne (\<lambda>u. userId u = req_userId req) (users db) = Some i"
    and "req_feature req \<in> set (features (users db ! i))"
    and "hasRemainingPrompts (users db ! i)"
    and "\<not> acceptsEvent (newUsageEvent now uuid req props ty
           (incrementPromptUsage now (users db ! i)))"
  shows "track acceptsEvent now uuid req db =
    (TrackInternalError, save i (incrementPromptUsage now (users db ! i)) db)"
  using assms by (simp add: track_def Let_def checkPromptLimit_ok save_def)

lemma track_exceeded_step:
  assumes "parseUsageEventType (req_type req) = Some ty" and "promptBased ty"
    and "metadataFields (req_metadata req) = Some props"
    and "req_userId req \<noteq> []" and "req_feature req \<noteq> []"
    and "findOne (\<lambda>u. userId u = req_userId req) (users db) = Some i"
    and "req_feature req \<in> set (features (users db ! i))"
    and "\<not> hasRemainingPrompts (users db ! i)"
  shows "track acceptsEvent now uuid req db =
    (TrackUsageLimitExceeded (limitExceededView (users db ! i)), db)"
  using assms by (simp add: track_def Let_def checkPromptLimit_exceeded)

text \<open>What one request does to the user at position \<open>j\<close>.\<close>

lemma track_step_at:
  assumes "j < length (users db)"
  shows "length (users (snd (track acceptsEvent now uuid req db))) = length (users db)
    \<and> promptsPerMonth (usageQuota (users (snd (track acceptsEvent now uuid req db)) ! j))
        = promptsPerMonth (usageQuota (users db ! j))
    \<and> (promptsUsed (usageQuota (users (snd (track acceptsEvent now uuid req db)) ! j))
          = promptsUsed (usageQuota (users db ! j))
       \<or> promptsUsed (usageQuota (users (snd (track acceptsEvent now uuid req db)) ! j))
            = promptsUsed (usageQuota (users db ! j)) + 1
          \<and> hasRemainingPrompts (users db ! j))"
proof -
  from track_users [of acceptsEvent now uuid req db]
  consider (same) "users (snd (track acceptsEvent now uuid req db)) = users db"
    | (upd) i where "i < length (users db)" "hasRemainingPrompts (users db ! i)"
        "users (snd (track acceptsEvent now uuid req db))
           = (users db)[i := incrementPromptUsage now (users db ! i)]"
    by blast
  then show ?thesis
  proof cases
    case same
    then show ?thesis by simp
  next
    case upd
    show ?thesis
    proof (cases "i = j")
      case True
      with upd assms show ?thesis by (simp add: incrementPromptUsage_def)
    next
      case False
      with upd assms show ?thesis by simp
    qed
  qed
qed

section \<open>Runs of /track requests\<close>

lemma trackAll_snd_Cons:
  "snd (trackAll acceptsEvent ((now, uuid, req) # rest) db)
     = snd (trackAll acceptsEvent rest (snd (track acceptsEvent now uuid req db)))"
  by (simp add: split_beta Let_def)

lemma trackAll_within_quota:
  assumes "j < length (users db)"
    and "promptsPerMonth (usageQuota (users db ! j)) \<noteq> -1"
    and "promptsUsed (usageQuota (users db ! j)) \<le> promptsPerMonth (usageQuota (users db ! j))"
  shows "length (users (snd (trackAll acceptsEvent calls db))) = length (users db)
    \<and> promptsPerMonth (usageQuota (users (snd (trackAll acceptsEvent calls db)) ! j))
        = promptsPerMonth (usageQuota (users db ! j))
    \<and> promptsUsed (usageQuota (users (snd (trackAll acceptsEvent calls db)) ! j))
        \<le> promptsPerMonth (usageQuota (users db ! j))"
  using assms
proof (induction calls arbitrary: db)
  case Nil
  then show ?case by simp
next
  case (Cons c calls)
  obtain now uuid req where c: "c = (now, uuid, req)" by (cases c) auto
  let ?db1 = "snd (track acceptsEvent now uuid req db)"
  from track_step_at [OF Cons.prems(1), of acceptsEvent now uuid req]
  have len: "length (users ?db1) = length (users db)"
    and ppm: "promptsPerMonth (usageQuota (users ?db1 ! j))
        = promptsPerMonth (usageQuota (users db ! j))"
    and used: "promptsUsed (usageQuota (users ?db1 ! j)) = promptsUsed (usageQuota (users db ! j))
       \<or> promptsUsed (usageQuota (users ?db1 ! j)) = promptsUsed (usageQuota (users db ! j)) + 1
          \<and> hasRemainingPrompts (users db ! j)"
    by blast+
  from used Cons.prems(2,3) ppm
  have le: "promptsUsed (usageQuota (users ?db1 ! j))
      \<le> promptsPerMonth (usageQuota (users ?db1 ! j))"
    by (auto simp: hasRemainingPrompts_def)
  have j1: "j < length (users ?db1)" using len Cons.prems(1) by simp
  have ne: "promptsPerMonth (usageQuota (users ?db1 ! j)) \<noteq> -1"
    using ppm Cons.prems(2) by simp
  from Cons.IH [OF j1 ne le] len ppm show ?case
    by (simp add: c trackAll_snd_Cons del: trackAll.simps)
qed

text \<open>
  While the counter \<open>k\<close> plus the number of requests stays within the quota \<open>N\<close>, every
  request whose event is stored is answered with 200 and counted.
\<close>

lemma trackAll_consume:
  assumes "findOne (\<lambda>u. userId u = uid) (users db) = Some i"
    and "promptsPerMonth (usageQuota (users db ! i)) = int N"
    and "promptsUsed (usageQuota (users db ! i)) = int k"
    and "k + length calls \<le> N"
    and "uid \<noteq> []"
    and "list_all (\<lambda>c. countedCall uid (features (users db ! i)) (snd (snd c))) calls"
    and "list_all (eventStored acceptsEvent (users db ! i)) calls"
  shows "\<exists>rs db'. trackAll acceptsEvent calls db = (rs, db')
      \<and> map trackStatus rs = replicate (length calls) 200
      \<and> findOne (\<lambda>u. userId u = uid) (users db') = Some i
      \<and> features (users db' ! i) = features (users db ! i)
      \<and> promptsPerMonth (usageQuota (users db' ! i)) = int N
      \<and> promptsUsed (usageQuota (users db' ! i)) = int (k + length calls)"
  using assms
proof (induction calls arbitrary: db k)
  case Nil
  then show ?case by simp
next
  case (Cons c calls)
  obtain now uuid req where c: "c = (now, uuid, req)" by (cases c) auto
  let ?u = "users db ! i"
  let ?u' = "incrementPromptUsage now ?u"
  from Cons.prems(6) c have cc: "countedCall uid (features ?u) req" by simp
  then obtain ty props where ty: "parseUsageEventType (req_type req) = Some ty"
      "promptBased ty" "metadataFields (req_metadata req) = Some props"
    using countedCall_parse by blast
  from cc have rq: "req_userId req = uid" "req_feature req \<noteq> []"
      "req_feature req \<in> set (features ?u)"
    by (simp_all add: countedCall_def)
  from Cons.prems(7) c ty have "acceptsEvent (newUsageEvent now uuid req props ty ?u)"
    by (simp add: eventStored_def)
  then have acc: "acceptsEvent (newUsageEvent now uuid req props ty ?u')"
    using newUsageEvent_cong [of ?u' ?u now uuid req props ty]
    by (simp add: incrementPromptUsage_fields)
  from Cons.prems(2,3,4) have rem: "hasRemainingPrompts ?u"
    by (simp add: hasRemainingPrompts_def)
  from Cons.prems(1) have i: "i < length (users db)" "userId ?u = uid"
    using findOne_Some [of "\<lambda>u. userId u = uid" "users db" i] by simp_all
  obtain db1 where db1: "track acceptsEvent now uuid req db
        = (TrackSuccess uuid (trackQuotaView ?u'), db1)"
      and users1: "users db1 = (users db)[i := ?u']"
    using track_success_step [where acceptsEvent = acceptsEvent and now = now and uuid = uuid
        and db = db and i = i, OF ty(1) ty(2) ty(3) _ rq(2) _ rq(3) rem acc]
      rq(1) Cons.prems(1,5)
    by (simp add: save_def)
  have find1: "findOne (\<lambda>u. userId u = uid) (users db1) = Some i"
    using findOne_update [OF Cons.prems(1), of ?u'] i(2) users1
    by (simp add: incrementPromptUsage_fields)
  have at1: "users db1 ! i = ?u'" using users1 i(1) by simp
  have ppm1: "promptsPerMonth (usageQuota (users db1 ! i)) = int N"
    using at1 Cons.prems(2) by (simp add: incrementPromptUsage_fields)
  have used1: "promptsUsed (usageQuota (users db1 ! i)) = int (Suc k)"
    using at1 Cons.prems(3) by (simp add: incrementPromptUsage_fields)
  have feat1: "features (users db1 ! i) = features ?u"
    using at1 by (simp add: incrementPromptUsage_fields)
  have bound1: "Suc k + length calls \<le> N" using Cons.prems(4) by simp
  have calls1: "list_all (\<lambda>c. countedCall uid (features (users db1 ! i)) (snd (snd c))) calls"
    using Cons.prems(6) feat1 by simp
  have same: "eventStored acceptsEvent (users db1 ! i) = eventStored acceptsEvent ?u"
    using eventStored_cong [of "users db1 ! i" ?u acceptsEvent] at1
    by (auto simp: incrementPromptUsage_fields)
  have stored1: "list_all (eventStored acceptsEvent (users db1 ! i)) calls"
    using Cons.prems(7) same by simp
  from Cons.IH [OF find1 ppm1 used1 bound1 Cons.prems(5) calls1 stored1]
  obtain rs db' where rest: "trackAll acceptsEvent calls db1 = (rs, db')"
      "map trackStatus rs = replicate (length calls) 200"
      "findOne (\<lambda>u. userId u = uid) (users db') = Some i"
      "features (users db' ! i) = features (users db1 ! i)"
      "promptsPerMonth (usageQuota (users db' ! i)) = int N"
      "promptsUsed (usageQuota (users db' ! i)) = int (Suc k + length calls)"
    by blast
  have "trackAll acceptsEvent (c # calls) db
      = (TrackSuccess uuid (trackQuotaView ?u') # rs, db')"
    using c db1 rest(1) by simp
  with rest feat1 show ?case by simp
qed

text \<open>
  The quota that /track answers, in its 200 and in its 429 response, is read from the
  user as it is stored after the request.
\<close>

lemma track_view_of_user:
  assumes "fst (track acceptsEvent now uuid req db) = TrackSuccess eid v
      \<or> fst (track acceptsEvent now uuid req db) = TrackUsageLimitExceeded v"
  shows "\<exists>k. findOne (\<lambda>u. userId u = req_userId req) (users db) = Some k
      \<and> qv_promptsPerMonth v
          = promptsPerMonth (usageQuota (users (snd (track acceptsEvent now uuid req db)) ! k))
      \<and> qv_promptsUsed v
          = promptsUsed (usageQuota (users (snd (track acceptsEvent now uuid req db)) ! k))
      \<and> qv_resetDate v
          = resetDate (usageQuota (users (snd (track acceptsEvent now uuid req db)) ! k))
      \<and> qv_promptsRemaining v
          = (if promptsPerMonth
                  (usageQuota (users (snd (track acceptsEvent now uuid req db)) ! k)) = -1
             then -1
             else max 0
               (promptsPerMonth
                    (usageQuota (users (snd (track acceptsEvent now uuid req db)) ! k))
                - promptsUsed
                    (usageQuota (users (snd (track acceptsEvent now uuid req db)) ! k))))"
proof -
  from assms obtain ty props where ty: "parseUsageEventType (req_type req) = Some ty"
      and props: "metadataFields (req_metadata req) = Some props"
    by (cases "parseUsageEventType (req_type req)"; cases "metadataFields (req_metadata req)")
      (auto simp: track_def)
  from assms ty props obtain k where k: "findOne (\<lambda>u. userId u = req_userId req) (users db) = Some k"
    by (cases "findOne (\<lambda>u. userId u = req_userId req) (users db)")
      (auto simp: track_def split: if_splits)
  then have len: "k < length (users db)" by (simp add: findOne_Some)
  show ?thesis
  proof (cases "promptBased ty")
    case False
    with assms ty props k show ?thesis
      by (auto simp: track_def Let_def checkPromptLimit_other trackQuotaView_def
          split: if_splits)
  next
    case True
    show ?thesis
    proof (cases "hasRemainingPrompts (users db ! k)")
      case False
      with True assms ty props k show ?thesis
        by (auto simp: track_def Let_def checkPromptLimit_exceeded limitExceededView_def
            hasRemainingPrompts_def split: if_splits)
    next
      case rem: True
      with True assms ty props k len show ?thesis
        by (auto simp: track_def Let_def checkPromptLimit_ok trackQuotaView_def save_def
            split: if_splits)
    qed
  qed
qed

section \<open>The steps of /verify and /:userId\<close>

lemma syncGoDaddyStatus_quota:
  "usageQuota (fst (syncGoDaddyStatus g i user db)) = usageQuota user"
  by (simp add: syncGoDaddyStatus_def Let_def split: option.splits)

lemma syncGoDaddyStatus_users:
  assumes "i < length (users db)" and "users db ! i = user"
  shows "users (snd (syncGoDaddyStatus g i user db)) ! i = fst (syncGoDaddyStatus g i user db)"
  using assms by (simp add: syncGoDaddyStatus_def Let_def save_def split: option.splits)

text \<open>What /verify answers and stores for a user that exists.\<close>

lemma verify_existing:
  assumes "vr_userId req \<noteq> []"
    and "findOne (\<lambda>u. userId u = vr_userId req) (users db) = Some i"
  shows "\<exists>valid s t e. fst (verify g now req db) = VerifyOK valid s t e
      \<and> us_usageQuota s = subscriptionQuotaView (users (snd (verify g now req db)) ! i)
      \<and> usageQuota (users (snd (verify g now req db)) ! i)
          = usageQuota (quotaRollover now (users db ! i))"
proof -
  let ?u1 = "quotaRollover now (updateMetadata now req (users db ! i))"
  let ?db1 = "save i ?u1 db"
  from assms(2) have i: "i < length (users db)" by (simp add: findOne_Some)
  then have at: "i < length (users ?db1)" "users ?db1 ! i = ?u1" by (simp_all add: save_def)
  obtain u2 db2 where s: "syncGoDaddyStatus g i ?u1 ?db1 = (u2, db2)" by fastforce
  from syncGoDaddyStatus_users [OF at, of g] s have u2: "users db2 ! i = u2" by simp
  from syncGoDaddyStatus_quota [of g i ?u1 ?db1] s have q: "usageQuota u2 = usageQuota ?u1"
    by simp
  have q1: "usageQuota ?u1 = usageQuota (quotaRollover now (users db ! i))"
    by (simp add: quotaRollover_def updateMetadata_def)
  have v: "verify g now req db
      = (VerifyOK (activeAt now u2 \<or> trialActiveAt now u2) (userSummary u2)
           (trialActiveAt now u2) (trialEndDate (subscription u2)), db2)"
    using assms s by (simp add: verify_def Let_def)
  show ?thesis using v u2 q q1 by (simp add: userSummary_def)
qed

text \<open>What /verify answers and stores for a user it has to make.\<close>

lemma verify_new:
  assumes "vr_userId req \<noteq> []"
    and "findOne (\<lambda>u. userId u = vr_userId req) (users db) = None"
  shows "\<exists>valid s t e. fst (verify g now req db) = VerifyOK valid s t e
      \<and> us_usageQuota s
          = subscriptionQuotaView (users (snd (verify g now req db)) ! length (users db))
      \<and> users (snd (verify g now req db)) ! length (users db) = newVerifyUser now req"
proof -
  have "syncGoDaddyStatus g (length (users db)) (newVerifyUser now req)
          (saveNew (newVerifyUser now req) db)
        = (newVerifyUser now req, saveNew (newVerifyUser now req) db)"
    by (simp add: syncGoDaddyStatus_def newVerifyUser_def)
  with assms show ?thesis by (simp add: verify_def Let_def userSummary_def saveNew_def)
qed

text \<open>The quota that /verify answers is read from the user as it is stored.\<close>

lemma verify_view_of_user:
  assumes "vr_userId req \<noteq> []"
    and "k = (case findOne (\<lambda>u. userId u = vr_userId req) (users db) of
                None \<Rightarrow> length (users db) | Some i \<Rightarrow> i)"
  shows "\<exists>valid s t e. fst (verify g now req db) = VerifyOK valid s t e
      \<and> qv_promptsPerMonth (us_usageQuota s)
          = promptsPerMonth (usageQuota (users (snd (verify g now req db)) ! k))
      \<and> qv_promptsUsed (us_usageQuota s)
          = promptsUsed (usageQuota (users (snd (verify g now req db)) ! k))
      \<and> qv_promptsRemaining (us_usageQuota s)
          = promptsPerMonth (usageQuota (users (snd (verify g now req db)) ! k))
            - promptsUsed (usageQuota (users (snd (verify g now req db)) ! k))"
proof (cases "findOne (\<lambda>u. userId u = vr_userId req) (users db)")
  case None
  with assms(2) have k: "k = length (users db)" by simp
  from verify_new [OF assms(1) None, of g now] show ?thesis
    unfolding k by (auto simp: subscriptionQuotaView_def)
next
  case (Some i)
  with assms(2) have k: "k = i" by simp
  from verify_existing [OF assms(1) Some, of g now] show ?thesis
    unfolding k by (auto simp: subscriptionQuotaView_def)
qed

lemma verify_unlimited:
  assumes "vr_userId req \<noteq> []"
    and "findOne (\<lambda>u. userId u = vr_userId req) (users db) = Some i"
    and "promptsPerMonth (usageQuota (users db ! i)) = -1"
    and "now \<le> resetDate (usageQuota (users db ! i))"
  shows "\<exists>valid s t e. fst (verify g now req db) = VerifyOK valid s t e
      \<and> qv_promptsRemaining (us_usageQuota s) = -1 - promptsUsed (usageQuota (users db ! i))"
proof -
  from assms(4) have "quotaRollover now (users db ! i) = users db ! i"
    by (simp add: quotaRollover_def)
  with verify_existing [OF assms(1,2), of g now] assms(3) show ?thesis
    by (auto simp: subscriptionQuotaView_def)
qed

lemma getSubscription_found:
  assumes "uid \<noteq> []" and "findOne (\<lambda>u. userId u = uid) (users db) = Some j"
  shows "getSubscription now uid db
      = GetOK (userSummary (users db ! j)) (trialActiveAt now (users db ! j))
          (trialEndDate (subscription (users db ! j)))
          (renewalDate (subscription (users db ! j)))"
  using assms by (simp add: getSubscription_def Let_def)

section \<open>The tier changes\<close>

lemma applyUpdate_tierApplied: "tierApplied t user (applyUpdate t st req user)"
  by (simp add: tierApplied_def applyUpdate_def Let_def)

lemma applyCreated_tierApplied:
  "tierApplied (mapPlanIdToTier (wd_planId d)) user (applyCreated now d user)"
  by (simp add: tierApplied_def applyCreated_def Let_def del: mapPlanIdToTier.simps)

lemma applyUpdated_tierApplied:
  "truthy (wd_planId d) \<Longrightarrow>
     tierApplied (mapPlanIdToTier (wd_planId d)) user (applyUpdated d user)"
  by (simp add: tierApplied_def applyUpdated_def Let_def del: mapPlanIdToTier.simps
      split: option.splits)

lemma applyExpired_tierApplied: "tierApplied FAN user (applyExpired now user)"
  by (simp add: tierApplied_def applyExpired_def)

section \<open>The signature test when the secret and the header are both there\<close>

text \<open>
  The handler goes on exactly when the header equals the digest of the body it received,
  and answers 401 without touching the database when it differs. Whether the digests of
  two different bodies differ is a property of the hash function \<open>hmac\<close>, which these
  definitions leave open.
\<close>

lemma signature_equal_accepted:
  assumes "sigHeader req = Some (hmac secret (rawBody req))"
  shows "godaddySubscription hmac parseJSON (Some secret) now req db
      = (case parseJSON (rawBody req) of
           None \<Rightarrow> (WebhookProcessingFailed, db)
         | Some event \<Rightarrow> (WebhookReceived, processEvent now event db))"
  using assms by (simp add: godaddySubscription_def signatureRejected_def)

lemma signature_different_rejected:
  assumes "secret \<noteq> []" and "sigHeader req = Some signature" and "signature \<noteq> []"
    and "signature \<noteq> hmac secret (rawBody req)"
  shows "godaddySubscription hmac parseJSON (Some secret) now req db
      = (WebhookInvalidSignature, db)"
  using assms by (simp add: godaddySubscription_def signatureRejected_def)

section \<open>The claims\<close>

text \<open>
  C1. The claim: in /verify and in /track alike, once the reset date has passed the
  counter is set back before the quota is consulted. /track does not do so. The user
  below has used all 75 prompts and the reset date lies in the past: the chat request is
  answered with 429 and the database stays as it was, whatever the event store would do,
  whereas /verify at the same moment sets the counter of the same user back to 0.
\<close>

theorem track_after_reset_date_still_limited:
  "resetDate (usageQuota (users exhaustedDb ! 0)) < thirtyDays + 1
   \<and> track acceptsEvent (thirtyDays + 1) ''e1'' chatRequest exhaustedDb
       = (TrackUsageLimitExceeded
            \<lparr>qv_promptsPerMonth = 75, qv_promptsUsed = 75, qv_promptsRemaining = 0,
             qv_resetDate = thirtyDays\<rparr>, exhaustedDb)
   \<and> promptsUsed (usageQuota (users (snd (verify (\<lambda>sid. None) (thirtyDays + 1)
         sampleVerifyRequest exhaustedDb)) ! 0)) = 0"
  by (simp add: sample_defs track_def checkPromptLimit_def parseUsageEventType_def
      limitExceededView_def verify_def syncGoDaddyStatus_def quotaRollover_def
      updateMetadata_def save_def)

text \<open>
  C2, as the claim has it: for a user with quota \<open>N\<close> and nothing used, \<open>N\<close> requests
  of a quota-counted type all succeed. The user below has the quota 75 and has used
  nothing, and the request is a chat request, yet it is answered with 403 and nothing is
  counted: the feature it names is not one of the user's. A second chat request names a
  feature of the user and carries \<open>tokensUsed = 'abc'\<close>; with a store that refuses its
  event, as Mongoose refuses to cast that value to a number, it is answered with 500,
  the counter is incremented and no event is stored.
\<close>

theorem track_counted_type_not_enough_counterexample:
  "promptsPerMonth (usageQuota (users sampleDb ! 0)) = 75
   \<and> promptsUsed (usageQuota (users sampleDb ! 0)) = 0
   \<and> req_type knowledgeBaseChat \<in> {''prompt'', ''chat'', ''agent''}
   \<and> trackStatus (fst (track sampleStore 5 ''e1'' knowledgeBaseChat sampleDb)) = 403
   \<and> snd (track sampleStore 5 ''e1'' knowledgeBaseChat sampleDb) = sampleDb
   \<and> req_type badMetadataChat \<in> {''prompt'', ''chat'', ''agent''}
   \<and> req_feature badMetadataChat \<in> set (features (users sampleDb ! 0))
   \<and> trackStatus (fst (track sampleStore 5 ''e1'' badMetadataChat sampleDb)) = 500
   \<and> promptsUsed (usageQuota
        (users (snd (track sampleStore 5 ''e1'' badMetadataChat sampleDb)) ! 0)) = 1
   \<and> usageEvents (snd (track sampleStore 5 ''e1'' badMetadataChat sampleDb)) = []"
  by (simp add: sample_defs track_def checkPromptLimit_def parseUsageEventType_def
      newUsageEvent_def save_def)

text \<open>
  C2, amended. A user found by \<open>uid\<close> has the quota \<open>N\<close> (a natural number, so not the
  \<open>-1\<close> of an unlimited plan) and has used nothing. \<open>N\<close> requests of that user follow
  one another, each valid, of a quota-counted type (prompt, chat or agent), for a feature
  of the user, and with a usage event that is stored. All of them are answered with 200
  and the counter stands at \<open>N\<close>. One more valid request of a quota-counted type for a
  feature of the user is answered with 429 (promptsUsed \<open>N\<close>, promptsRemaining 0) and
  leaves the database as it was.
\<close>

theorem track_quota_exhausted_after_N:
  assumes "findOne (\<lambda>u. userId u = uid) (users db) = Some i"
    and "promptsPerMonth (usageQuota (users db ! i)) = int N"
    and "promptsUsed (usageQuota (users db ! i)) = 0"
    and "length calls = N"
    and "uid \<noteq> []"
    and "list_all (\<lambda>c. countedCall uid (features (users db ! i)) (snd (snd c))) calls"
    and "list_all (eventStored acceptsEvent (users db ! i)) calls"
    and "countedCall uid (features (users db ! i)) req"
  shows "\<exists>rs db'. trackAll acceptsEvent calls db = (rs, db')
      \<and> map trackStatus rs = replicate N 200
      \<and> promptsUsed (usageQuota (users db' ! i)) = int N
      \<and> track acceptsEvent now uuid req db'
          = (TrackUsageLimitExceeded
               \<lparr>qv_promptsPerMonth = int N, qv_promptsUsed = int N,
                qv_promptsRemaining = 0,
                qv_resetDate = resetDate (usageQuota (users db' ! i))\<rparr>, db')
      \<and> trackStatus (fst (track acceptsEvent now uuid req db')) = 429"
proof -
  from assms(3) have used0: "promptsUsed (usageQuota (users db ! i)) = int 0" by simp
  from assms(4) have bound: "0 + length calls \<le> N" by simp
  from trackAll_consume [OF assms(1) assms(2) used0 bound assms(5) assms(6) assms(7)]
  obtain rs db' where run: "trackAll acceptsEvent calls db = (rs, db')"
      "map trackStatus rs = replicate (length calls) 200"
      "findOne (\<lambda>u. userId u = uid) (users db') = Some i"
      "features (users db' ! i) = features (users db ! i)"
      "promptsPerMonth (usageQuota (users db' ! i)) = int N"
      "promptsUsed (usageQuota (users db' ! i)) = int (0 + length calls)"
    by blast
  from run(6) assms(4) have usedN: "promptsUsed (usageQuota (users db' ! i)) = int N" by simp
  from assms(8) obtain ty props where ty: "parseUsageEventType (req_type req) = Some ty"
      "promptBased ty" "metadataFields (req_metadata req) = Some props"
    using countedCall_parse by blast
  from assms(8) run(4) have rq: "req_userId req = uid" "req_feature req \<noteq> []"
      "req_feature req \<in> set (features (users db' ! i))"
    by (simp_all add: countedCall_def)
  have norem: "\<not> hasRemainingPrompts (users db' ! i)"
    using run(5) usedN by (simp add: hasRemainingPrompts_def)
  have last: "track acceptsEvent now uuid req db'
      = (TrackUsageLimitExceeded (limitExceededView (users db' ! i)), db')"
    using track_exceeded_step [OF ty(1) ty(2) ty(3) _ rq(2) _ rq(3) norem, of acceptsEvent now uuid]
      rq(1) run(3) assms(5) by simp
  have view: "limitExceededView (users db' ! i)
      = \<lparr>qv_promptsPerMonth = int N, qv_promptsUsed = int N, qv_promptsRemaining = 0,
         qv_resetDate = resetDate (usageQuota (users db' ! i))\<rparr>"
    using run(5) usedN by (simp add: limitExceededView_def)
  from run(1,2) assms(4) usedN last view show ?thesis by simp
qed

theorem track_quota_exhausted_after_N_witness:
  "findOne (\<lambda>u. userId u = ''u1'') (users sampleDb) = Some 0
   \<and> promptsPerMonth (usageQuota (users sampleDb ! 0)) = int 75
   \<and> promptsUsed (usageQuota (users sampleDb ! 0)) = 0
   \<and> length seventyFiveCalls = 75
   \<and> list_all (\<lambda>c. countedCall ''u1'' (features (users sampleDb ! 0)) (snd (snd c)))
        seventyFiveCalls
   \<and> list_all (eventStored sampleStore (users sampleDb ! 0)) seventyFiveCalls
   \<and> countedCall ''u1'' (features (users sampleDb ! 0)) badMetadataChat
   \<and> (\<exists>rs db'. trackAll sampleStore seventyFiveCalls sampleDb = (rs, db')
        \<and> map trackStatus rs = replicate 75 200
        \<and> promptsUsed (usageQuota (users db' ! 0)) = int 75
        \<and> track sampleStore 100 ''last'' badMetadataChat db'
            = (TrackUsageLimitExceeded
                 \<lparr>qv_promptsPerMonth = int 75, qv_promptsUsed = int 75,
                  qv_promptsRemaining = 0,
                  qv_resetDate = resetDate (usageQuota (users db' ! 0))\<rparr>, db')
        \<and> trackStatus (fst (track sampleStore 100 ''last'' badMetadataChat db')) = 429)"
proof -
  have h1: "findOne (\<lambda>u. userId u = ''u1'') (users sampleDb) = Some 0"
    by (simp add: sample_defs)
  have h2: "promptsPerMonth (usageQuota (users sampleDb ! 0)) = int 75"
    by (simp add: sample_defs)
  have h3: "promptsUsed (usageQuota (users sampleDb ! 0)) = 0"
    by (simp add: sample_defs)
  have h4: "length seventyFiveCalls = 75"
    by (simp add: seventyFiveCalls_def)
  have h5: "''u1'' \<noteq> []" by simp
  have c1: "countedCall ''u1'' (features (users sampleDb ! 0)) chatRequest"
    by (simp add: sample_defs countedCall_def)
  have h6: "list_all (\<lambda>c. countedCall ''u1'' (features (users sampleDb ! 0)) (snd (snd c)))
        seventyFiveCalls"
    using c1 by (simp add: seventyFiveCalls_def list_all_iff)
  have h7: "list_all (eventStored sampleStore (users sampleDb ! 0)) seventyFiveCalls"
    by (simp add: seventyFiveCalls_def list_all_iff eventStored_def chatRequest_def
        parseUsageEventType_def newUsageEvent_def sampleStore_def)
  have h8: "countedCall ''u1'' (features (users sampleDb ! 0)) badMetadataChat"
    by (simp add: sample_defs countedCall_def)
  from track_quota_exhausted_after_N [OF h1 h2 h3 h4 h5 h6 h7 h8, of 100 "''last''"]
  show ?thesis using h1 h2 h3 h4 h6 h7 h8 by blast
qed

text \<open>
  C3. A tier change writes the tier, the features and the quota of the tier policy and
  keeps the counter \<open>promptsUsed\<close>: in PUT /update/:userId for a user that exists, in
  \<open>subscription.created\<close> for a user that exists and for one that is made, in
  \<open>subscription.updated\<close> when the event names a plan, and in \<open>subscription.expired\<close>.
  Every tier is reached by a request and by a plan id. The tier policy is the table of
  the specification: quota 75 and the features chat, agent, codeCompletion for \<open>FAN\<close>;
  quota \<open>-1\<close> and in addition dependencyVisualization, knowledgeBase for \<open>DEVELOPER\<close>;
  quota \<open>-1\<close> and in addition fineTuning, rbac, auditLogging, sso for \<open>ENTERPRISE\<close>.
\<close>

theorem tier_change_applies_policy:
  "(parseSubscriptionTier (ur_tier req) = Some t
      \<and> parseSubscriptionStatus (ur_status req) = Some st \<and> ur_userId req \<noteq> []
      \<and> findOne (\<lambda>u. userId u = ur_userId req) (users db) = Some i
    \<longrightarrow> updateStatus (fst (updateSubscription req db)) = 200
      \<and> tierApplied t (users db ! i) (users (snd (updateSubscription req db)) ! i))
   \<and> (wd_userId d = Some uid \<and> uid \<noteq> []
      \<and> findOne (\<lambda>u. userId u = uid) (users db) = Some j
    \<longrightarrow> tierApplied (mapPlanIdToTier (wd_planId d)) (users db ! j)
          (users (handleSubscriptionCreated now d db) ! j))
   \<and> (wd_userId dn = Some uidn \<and> uidn \<noteq> []
      \<and> findOne (\<lambda>u. userId u = uidn) (users dbn) = None
    \<longrightarrow> tierApplied (mapPlanIdToTier (wd_planId dn))
          (newWebhookUser now uidn (wd_customerEmail dn))
          (users (handleSubscriptionCreated now dn dbn) ! length (users dbn)))
   \<and> (truthy (wd_planId du)
      \<and> findOne (bySubscriptionId (wd_subscriptionId du)) (users db) = Some k
    \<longrightarrow> tierApplied (mapPlanIdToTier (wd_planId du)) (users db ! k)
          (users (handleSubscriptionUpdated du db) ! k))
   \<and> (findOne (bySubscriptionId (wd_subscriptionId de)) (users db) = Some m
    \<longrightarrow> tierApplied FAN (users db ! m) (users (handleSubscriptionExpired now de db) ! m))
   \<and> parseSubscriptionTier ''fan'' = Some FAN
   \<and> parseSubscriptionTier ''developer'' = Some DEVELOPER
   \<and> parseSubscriptionTier ''enterprise'' = Some ENTERPRISE
   \<and> mapPlanIdToTier (Some ''scale-fan'') = FAN
   \<and> mapPlanIdToTier (Some ''scale-developer'') = DEVELOPER
   \<and> mapPlanIdToTier (Some ''scale-enterprise'') = ENTERPRISE
   \<and> getTierConfiguration FAN
       = \<lparr>cfg_promptsPerMonth = 75, cfg_features = [''chat'', ''agent'', ''codeCompletion'']\<rparr>
   \<and> getTierConfiguration DEVELOPER
       = \<lparr>cfg_promptsPerMonth = -1,
          cfg_features = [''chat'', ''agent'', ''codeCompletion'', ''dependencyVisualization'',
                          ''knowledgeBase'']\<rparr>
   \<and> getTierConfiguration ENTERPRISE
       = \<lparr>cfg_promptsPerMonth = -1,
          cfg_features = [''chat'', ''agent'', ''codeCompletion'', ''dependencyVisualization'',
                          ''knowledgeBase'', ''fineTuning'', ''rbac'', ''auditLogging'',
                          ''sso'']\<rparr>"
proof -
  have put: "updateStatus (fst (updateSubscription req db)) = 200
      \<and> tierApplied t (users db ! i) (users (snd (updateSubscription req db)) ! i)"
    if "parseSubscriptionTier (ur_tier req) = Some t"
      and "parseSubscriptionStatus (ur_status req) = Some st" and "ur_userId req \<noteq> []"
      and "findOne (\<lambda>u. userId u = ur_userId req) (users db) = Some i"
  proof -
    from that(4) have "i < length (users db)" by (simp add: findOne_Some)
    with that show ?thesis
      by (simp add: updateSubscription_def Let_def save_def applyUpdate_tierApplied)
  qed
  have created: "tierApplied (mapPlanIdToTier (wd_planId d)) (users db ! j)
          (users (handleSubscriptionCreated now d db) ! j)"
    if "wd_userId d = Some uid" and "uid \<noteq> []"
      and "findOne (\<lambda>u. userId u = uid) (users db) = Some j"
  proof -
    from that(3) have "j < length (users db)" by (simp add: findOne_Some)
    with that show ?thesis
      by (simp add: handleSubscriptionCreated_def save_def applyCreated_tierApplied
          del: mapPlanIdToTier.simps)
  qed
  have created_new: "tierApplied (mapPlanIdToTier (wd_planId dn))
          (newWebhookUser now uidn (wd_customerEmail dn))
          (users (handleSubscriptionCreated now dn dbn) ! length (users dbn))"
    if "wd_userId dn = Some uidn" and "uidn \<noteq> []"
      and "findOne (\<lambda>u. userId u = uidn) (users dbn) = None"
    using that
    by (simp add: handleSubscriptionCreated_def saveNew_def applyCreated_tierApplied
        del: mapPlanIdToTier.simps)
  have updated: "tierApplied (mapPlanIdToTier (wd_planId du)) (users db ! k)
          (users (handleSubscriptionUpdated du db) ! k)"
    if "truthy (wd_planId du)"
      and "findOne (bySubscriptionId (wd_subscriptionId du)) (users db) = Some k"
  proof -
    from that(2) have "k < length (users db)" by (simp add: findOne_Some)
    with that show ?thesis
      by (simp add: handleSubscriptionUpdated_def save_def applyUpdated_tierApplied
          del: mapPlanIdToTier.simps)
  qed
  have expired: "tierApplied FAN (users db ! m) (users (handleSubscriptionExpired now de db) ! m)"
    if "findOne (bySubscriptionId (wd_subscriptionId de)) (users db) = Some m"
  proof -
    from that have "m < length (users db)" by (simp add: findOne_Some)
    with that show ?thesis
      by (simp add: handleSubscriptionExpired_def save_def applyExpired_tierApplied)
  qed
  have table: "parseSubscriptionTier ''fan'' = Some FAN
      \<and> parseSubscriptionTier ''developer'' = Some DEVELOPER
      \<and> parseSubscriptionTier ''enterprise'' = Some ENTERPRISE
      \<and> mapPlanIdToTier (Some ''scale-fan'') = FAN
      \<and> mapPlanIdToTier (Some ''scale-developer'') = DEVELOPER
      \<and> mapPlanIdToTier (Some ''scale-enterprise'') = ENTERPRISE
      \<and> getTierConfiguration FAN
          = \<lparr>cfg_promptsPerMonth = 75,
             cfg_features = [''chat'', ''agent'', ''codeCompletion'']\<rparr>
      \<and> getTierConfiguration DEVELOPER
          = \<lparr>cfg_promptsPerMonth = -1,
             cfg_features = [''chat'', ''agent'', ''codeCompletion'',
                             ''dependencyVisualization'', ''knowledgeBase'']\<rparr>
      \<and> getTierConfiguration ENTERPRISE
          = \<lparr>cfg_promptsPerMonth = -1,
             cfg_features = [''chat'', ''agent'', ''codeCompletion'',
                             ''dependencyVisualization'', ''knowledgeBase'', ''fineTuning'',
                             ''rbac'', ''auditLogging'', ''sso'']\<rparr>"
    by (simp add: parseSubscriptionTier_def)
  from put created created_new updated expired table show ?thesis by blast
qed

theorem tier_change_applies_policy_witness:
  "parseSubscriptionTier (ur_tier sampleUpdate) = Some ENTERPRISE
   \<and> parseSubscriptionStatus (ur_status sampleUpdate) = Some ACTIVE
   \<and> ur_userId sampleUpdate \<noteq> []
   \<and> findOne (\<lambda>u. userId u = ur_userId sampleUpdate) (users developerDb) = Some 0
   \<and> wd_userId sampleCreated = Some ''u1''
   \<and> findOne (\<lambda>u. userId u = ''u1'') (users developerDb) = Some 0
   \<and> findOne (\<lambda>u. userId u = ''u1'') (users emptyDb) = None
   \<and> truthy (wd_planId samplePlanChange)
   \<and> findOne (bySubscriptionId (wd_subscriptionId samplePlanChange)) (users developerDb) = Some 0
   \<and> findOne (bySubscriptionId (wd_subscriptionId sampleExpiredData)) (users developerDb) = Some 0
   \<and> tierApplied ENTERPRISE (users developerDb ! 0)
        (users (snd (updateSubscription sampleUpdate developerDb)) ! 0)
   \<and> features (users (snd (updateSubscription sampleUpdate developerDb)) ! 0)
       = [''chat'', ''agent'', ''codeCompletion'', ''dependencyVisualization'',
          ''knowledgeBase'', ''fineTuning'', ''rbac'', ''auditLogging'', ''sso'']
   \<and> promptsPerMonth (usageQuota
        (users (snd (updateSubscription sampleUpdate developerDb)) ! 0)) = -1
   \<and> promptsUsed (usageQuota (users (snd (updateSubscription sampleUpdate developerDb)) ! 0)) = 120
   \<and> tierApplied DEVELOPER (users developerDb ! 0)
        (users (handleSubscriptionCreated 30 sampleCreated developerDb) ! 0)
   \<and> tierApplied DEVELOPER (newWebhookUser 30 ''u1'' (wd_customerEmail sampleCreated))
        (users (handleSubscriptionCreated 30 sampleCreated emptyDb) ! 0)
   \<and> features (users (handleSubscriptionCreated 30 sampleCreated emptyDb) ! 0)
       = [''chat'', ''agent'', ''codeCompletion'', ''dependencyVisualization'',
          ''knowledgeBase'']
   \<and> tierApplied FAN (users developerDb ! 0)
        (users (handleSubscriptionUpdated samplePlanChange developerDb) ! 0)
   \<and> promptsPerMonth (usageQuota
        (users (handleSubscriptionUpdated samplePlanChange developerDb) ! 0)) = 75
   \<and> promptsUsed (usageQuota
        (users (handleSubscriptionUpdated samplePlanChange developerDb) ! 0)) = 120
   \<and> tierApplied FAN (users developerDb ! 0)
        (users (handleSubscriptionExpired 30 sampleExpiredData developerDb) ! 0)"
  using tier_change_applies_policy [of sampleUpdate ENTERPRISE ACTIVE developerDb 0
      sampleCreated "''u1''" 0 30 sampleCreated "''u1''" emptyDb samplePlanChange 0
      sampleExpiredData 0]
  by (simp add: sample_defs parseSubscriptionTier_def parseSubscriptionStatus_def
      bySubscriptionId_def tierApplied_def)

text \<open>
  C4. A user whose quota is not \<open>-1\<close> and whose counter does not exceed the quota keeps
  the quota and a counter that does not exceed it through every run of /track requests,
  whoever they are for. A single request changes the counter only by adding 1, and only
  when the counter was below the quota.
\<close>

theorem track_never_exceeds_quota:
  assumes "j < length (users db)"
    and "promptsPerMonth (usageQuota (users db ! j)) \<noteq> -1"
    and "promptsUsed (usageQuota (users db ! j)) \<le> promptsPerMonth (usageQuota (users db ! j))"
  shows "promptsPerMonth (usageQuota (users (snd (trackAll acceptsEvent calls db)) ! j))
        = promptsPerMonth (usageQuota (users db ! j))
    \<and> promptsUsed (usageQuota (users (snd (trackAll acceptsEvent calls db)) ! j))
        \<le> promptsPerMonth (usageQuota (users (snd (trackAll acceptsEvent calls db)) ! j))
    \<and> (promptsUsed (usageQuota (users (snd (track acceptsEvent now uuid req db)) ! j))
          \<noteq> promptsUsed (usageQuota (users db ! j))
        \<longrightarrow> promptsUsed (usageQuota (users db ! j)) < promptsPerMonth (usageQuota (users db ! j))
          \<and> promptsUsed (usageQuota (users (snd (track acceptsEvent now uuid req db)) ! j))
              = promptsUsed (usageQuota (users db ! j)) + 1)"
proof -
  from trackAll_within_quota [OF assms, of acceptsEvent calls]
  have run: "promptsPerMonth (usageQuota (users (snd (trackAll acceptsEvent calls db)) ! j))
        = promptsPerMonth (usageQuota (users db ! j))"
    "promptsUsed (usageQuota (users (snd (trackAll acceptsEvent calls db)) ! j))
        \<le> promptsPerMonth (usageQuota (users db ! j))"
    by blast+
  from track_step_at [OF assms(1), of acceptsEvent now uuid req] assms(2)
  have step: "promptsUsed (usageQuota (users (snd (track acceptsEvent now uuid req db)) ! j))
          \<noteq> promptsUsed (usageQuota (users db ! j))
        \<longrightarrow> promptsUsed (usageQuota (users db ! j)) < promptsPerMonth (usageQuota (users db ! j))
          \<and> promptsUsed (usageQuota (users (snd (track acceptsEvent now uuid req db)) ! j))
              = promptsUsed (usageQuota (users db ! j)) + 1"
    by (auto simp: hasRemainingPrompts_def)
  from run step show ?thesis by simp
qed

theorem track_never_exceeds_quota_witness:
  "(0::nat) < length (users nearLimitDb)
   \<and> promptsPerMonth (usageQuota (users nearLimitDb ! 0)) = 75
   \<and> promptsUsed (usageQuota (users nearLimitDb ! 0)) = 74
   \<and> map trackStatus (fst (trackAll sampleStore threeCalls nearLimitDb)) = [200, 429, 429]
   \<and> promptsPerMonth (usageQuota (users (snd (trackAll sampleStore threeCalls nearLimitDb)) ! 0)) = 75
   \<and> promptsUsed (usageQuota (users (snd (trackAll sampleStore threeCalls nearLimitDb)) ! 0)) = 75
   \<and> promptsUsed (usageQuota (users (snd (track sampleStore 5 ''e1'' chatRequest nearLimitDb)) ! 0)) = 75"
  using track_never_exceeds_quota [of 0 nearLimitDb sampleStore threeCalls 5 "''e1''" chatRequest]
  by (simp add: sample_defs threeCalls_def track_def checkPromptLimit_def
      parseUsageEventType_def newUsageEvent_def save_def)

text \<open>
  C5. A /track request whose type is code_completion, dependency_visualization,
  knowledge_base or fine_tuning leaves every user document as it was, so
  \<open>promptsUsed\<close>, \<open>promptsPerMonth\<close> and \<open>resetDate\<close> keep their values, and it is never
  answered with 429.
\<close>

theorem track_other_types_leave_quota:
  assumes "req_type req \<in> {''code_completion'', ''dependency_visualization'',
                            ''knowledge_base'', ''fine_tuning''}"
  shows "users (snd (track acceptsEvent now uuid req db)) = users db
    \<and> trackStatus (fst (track acceptsEvent now uuid req db)) \<noteq> 429"
proof -
  from assms obtain ty where ty: "parseUsageEventType (req_type req) = Some ty"
      "\<not> promptBased ty"
    using parse_other_types by blast
  show ?thesis
  proof (cases "metadataFields (req_metadata req)")
    case None
    with ty show ?thesis by (simp add: track_def)
  next
    case props: (Some props)
    show ?thesis
    proof (cases "findOne (\<lambda>u. userId u = req_userId req) (users db)")
      case None
      with ty props show ?thesis by (simp add: track_def)
    next
      case (Some i)
      with ty props show ?thesis
        by (simp add: track_def Let_def checkPromptLimit_other)
    qed
  qed
qed

theorem track_other_types_leave_quota_witness:
  "req_type completionRequest
      \<in> {''code_completion'', ''dependency_visualization'', ''knowledge_base'', ''fine_tuning''}
   \<and> users (snd (track sampleStore 5 ''e1'' completionRequest exhaustedDb)) = users exhaustedDb
   \<and> trackStatus (fst (track sampleStore 5 ''e1'' completionRequest exhaustedDb)) = 200"
  using track_other_types_leave_quota [of completionRequest sampleStore 5 "''e1''" exhaustedDb]
  by (simp add: sample_defs track_def checkPromptLimit_def parseUsageEventType_def
      newUsageEvent_def)

text \<open>
  C6, as the claim has it: whenever the reset date is reached (\<open>now \<ge> resetDate\<close>) one
  application sets \<open>promptsUsed\<close> to 0 and \<open>lastResetDate\<close> to \<open>now\<close>. The rollover of
  /verify does neither at the very reset date, where the counter stays at 75, and it
  never writes \<open>lastResetDate\<close>.
\<close>

theorem quotaRollover_counterexample:
  "resetDate (usageQuota exhaustedUser) \<le> thirtyDays
   \<and> promptsUsed (usageQuota (quotaRollover thirtyDays exhaustedUser)) \<noteq> 0
   \<and> resetDate (usageQuota exhaustedUser) \<le> thirtyDays + 1
   \<and> lastResetDate (usageQuota (quotaRollover (thirtyDays + 1) exhaustedUser))
       \<noteq> Some (thirtyDays + 1)"
  by (simp add: sample_defs quotaRollover_def)

text \<open>
  C6, amended. The rollover of /verify fires when the reset date lies strictly before
  \<open>now\<close>. Up to and at the reset date, applying it once or twice changes nothing. After
  the reset date one application sets \<open>promptsUsed\<close> to 0 and \<open>resetDate\<close> to
  \<open>now\<close> plus thirty days, which is later than \<open>now\<close>, keeps \<open>promptsPerMonth\<close>, and a
  second application at the same \<open>now\<close> changes nothing more. /verify stores exactly this
  quota for a user that exists. The schema method \<open>resetUsageQuota\<close> sets \<open>promptsUsed\<close>
  to 0, \<open>lastResetDate\<close> to \<open>now\<close> and \<open>resetDate\<close> to \<open>now\<close> plus thirty days.
\<close>

theorem quotaRollover_strict_and_idempotent:
  "(now1 \<le> resetDate (usageQuota user1)
    \<longrightarrow> quotaRollover now1 user1 = user1
      \<and> quotaRollover now1 (quotaRollover now1 user1) = user1)
   \<and> (resetDate (usageQuota user2) < now2
    \<longrightarrow> promptsUsed (usageQuota (quotaRollover now2 user2)) = 0
      \<and> resetDate (usageQuota (quotaRollover now2 user2)) = now2 + thirtyDays
      \<and> now2 < resetDate (usageQuota (quotaRollover now2 user2))
      \<and> promptsPerMonth (usageQuota (quotaRollover now2 user2))
          = promptsPerMonth (usageQuota user2)
      \<and> quotaRollover now2 (quotaRollover now2 user2) = quotaRollover now2 user2)
   \<and> (vr_userId req \<noteq> [] \<and> findOne (\<lambda>u. userId u = vr_userId req) (users db) = Some i
    \<longrightarrow> usageQuota (users (snd (verify g now req db)) ! i)
          = usageQuota (quotaRollover now (users db ! i)))
   \<and> promptsUsed (usageQuota (resetUsageQuota now user)) = 0
   \<and> lastResetDate (usageQuota (resetUsageQuota now user)) = Some now
   \<and> resetDate (usageQuota (resetUsageQuota now user)) = now + thirtyDays"
proof -
  have keep: "quotaRollover now1 user1 = user1
      \<and> quotaRollover now1 (quotaRollover now1 user1) = user1"
    if "now1 \<le> resetDate (usageQuota user1)"
    using that by (simp add: quotaRollover_def)
  have fire: "promptsUsed (usageQuota (quotaRollover now2 user2)) = 0
      \<and> resetDate (usageQuota (quotaRollover now2 user2)) = now2 + thirtyDays
      \<and> now2 < resetDate (usageQuota (quotaRollover now2 user2))
      \<and> promptsPerMonth (usageQuota (quotaRollover now2 user2))
          = promptsPerMonth (usageQuota user2)
      \<and> quotaRollover now2 (quotaRollover now2 user2) = quotaRollover now2 user2"
    if "resetDate (usageQuota user2) < now2"
    using that by (simp add: quotaRollover_def thirtyDays_def)
  have route: "usageQuota (users (snd (verify g now req db)) ! i)
          = usageQuota (quotaRollover now (users db ! i))"
    if "vr_userId req \<noteq> []" and "findOne (\<lambda>u. userId u = vr_userId req) (users db) = Some i"
    using verify_existing [OF that, of g now] by blast
  have unconditional: "promptsUsed (usageQuota (resetUsageQuota now user)) = 0
      \<and> lastResetDate (usageQuota (resetUsageQuota now user)) = Some now
      \<and> resetDate (usageQuota (resetUsageQuota now user)) = now + thirtyDays"
    by (simp add: resetUsageQuota_def)
  from keep fire route unconditional show ?thesis by blast
qed

theorem quotaRollover_strict_and_idempotent_witness:
  "thirtyDays \<le> resetDate (usageQuota exhaustedUser)
   \<and> resetDate (usageQuota exhaustedUser) < thirtyDays + 1
   \<and> vr_userId sampleVerifyRequest \<noteq> []
   \<and> findOne (\<lambda>u. userId u = vr_userId sampleVerifyRequest) (users exhaustedDb) = Some 0
   \<and> quotaRollover thirtyDays (quotaRollover thirtyDays exhaustedUser) = exhaustedUser
   \<and> promptsUsed (usageQuota (quotaRollover (thirtyDays + 1) exhaustedUser)) = 0
   \<and> resetDate (usageQuota (quotaRollover (thirtyDays + 1) exhaustedUser)) = 2 * thirtyDays + 1
   \<and> promptsUsed (usageQuota (users (snd (verify (\<lambda>sid. None) (thirtyDays + 1)
        sampleVerifyRequest exhaustedDb)) ! 0)) = 0"
  using quotaRollover_strict_and_idempotent [of thirtyDays exhaustedUser exhaustedUser
      "thirtyDays + 1" sampleVerifyRequest exhaustedDb 0 "\<lambda>sid. None" "thirtyDays + 1"]
  by (simp add: sample_defs quotaRollover_def)

text \<open>
  C7. The webhook receives an event of type \<open>subscription.expired\<close> whose subscription
  id resolves to a user, and does not reject its signature. It answers 200, and the user
  then has the status \<open>EXPIRED\<close>, the end date \<open>now\<close>, the tier \<open>FAN\<close>, the features of
  the tier policy for \<open>FAN\<close> (chat, agent, codeCompletion) and the quota 75, whatever
  the tier was before. The counter \<open>promptsUsed\<close> is kept.
\<close>

theorem expired_event_downgrades_to_fan:
  assumes "\<not> signatureRejected hmac webhookSecret req"
    and "parseJSON (rawBody req) = Some event"
    and "we_type event = ''subscription.expired''"
    and "we_data event = Some d"
    and "findOne (bySubscriptionId (wd_subscriptionId d)) (users db) = Some i"
  shows "godaddySubscription hmac parseJSON webhookSecret now req db
      = (WebhookReceived, handleSubscriptionExpired now d db)
    \<and> status (subscription (users (handleSubscriptionExpired now d db) ! i)) = EXPIRED
    \<and> endDate (subscription (users (handleSubscriptionExpired now d db) ! i)) = Some now
    \<and> tier (subscription (users (handleSubscriptionExpired now d db) ! i)) = FAN
    \<and> features (users (handleSubscriptionExpired now d db) ! i)
        = cfg_features (getTierConfiguration FAN)
    \<and> features (users (handleSubscriptionExpired now d db) ! i)
        = [''chat'', ''agent'', ''codeCompletion'']
    \<and> promptsPerMonth (usageQuota (users (handleSubscriptionExpired now d db) ! i)) = 75
    \<and> promptsUsed (usageQuota (users (handleSubscriptionExpired now d db) ! i))
        = promptsUsed (usageQuota (users db ! i))"
proof -
  from assms(5) have i: "i < length (users db)" by (simp add: findOne_Some)
  have route: "godaddySubscription hmac parseJSON webhookSecret now req db
      = (WebhookReceived, handleSubscriptionExpired now d db)"
    using assms(1-4) by (simp add: godaddySubscription_def processEvent_def)
  have user: "users (handleSubscriptionExpired now d db) ! i = applyExpired now (users db ! i)"
    using assms(5) i by (simp add: handleSubscriptionExpired_def save_def)
  show ?thesis unfolding route user by (simp add: applyExpired_def)
qed

theorem expired_event_downgrades_to_fan_witness:
  "\<not> signatureRejected (\<lambda>secret payload. secret @ payload) None unsignedRequest
   \<and> we_type sampleExpired = ''subscription.expired''
   \<and> we_data sampleExpired = Some sampleExpiredData
   \<and> findOne (bySubscriptionId (wd_subscriptionId sampleExpiredData)) (users developerDb) = Some 0
   \<and> tier (subscription (users developerDb ! 0)) = DEVELOPER
   \<and> fst (godaddySubscription (\<lambda>secret payload. secret @ payload) (\<lambda>body. Some sampleExpired)
        None 50 unsignedRequest developerDb) = WebhookReceived
   \<and> tier (subscription (users (snd (godaddySubscription (\<lambda>secret payload. secret @ payload)
        (\<lambda>body. Some sampleExpired) None 50 unsignedRequest developerDb)) ! 0)) = FAN
   \<and> promptsPerMonth (usageQuota (users (snd (godaddySubscription
        (\<lambda>secret payload. secret @ payload) (\<lambda>body. Some sampleExpired) None 50
        unsignedRequest developerDb)) ! 0)) = 75"
  using expired_event_downgrades_to_fan [of "\<lambda>secret payload. secret @ payload" None
      unsignedRequest "\<lambda>body. Some sampleExpired" sampleExpired sampleExpiredData
      developerDb 0 50]
  by (simp add: sample_defs signatureRejected_def bySubscriptionId_def)

text \<open>
  C9. When the webhook secret is not configured or the request carries no signature
  header (or either is the empty string), the handler does not compare signatures: it
  parses the body and processes the event, answering 200, or 500 when the body does not
  parse, and never 401.
\<close>

theorem signature_check_is_skipped:
  assumes "\<not> truthy webhookSecret \<or> \<not> truthy (sigHeader req)"
  shows "godaddySubscription hmac parseJSON webhookSecret now req db
      = (case parseJSON (rawBody req) of
           None \<Rightarrow> (WebhookProcessingFailed, db)
         | Some event \<Rightarrow> (WebhookReceived, processEvent now event db))
    \<and> webhookStatus (fst (godaddySubscription hmac parseJSON webhookSecret now req db)) \<noteq> 401"
proof -
  from assms have "\<not> signatureRejected hmac webhookSecret req"
    by (auto simp: signatureRejected_def split: option.splits)
  then show ?thesis
    by (simp add: godaddySubscription_def split: option.splits)
qed

theorem signature_check_is_skipped_witness:
  "truthy (Some ''whsec'') \<and> sigHeader unsignedRequest = None
   \<and> godaddySubscription (\<lambda>secret payload. secret @ payload) (\<lambda>body. Some sampleExpired)
        (Some ''whsec'') 50 unsignedRequest developerDb
      = (WebhookReceived, processEvent 50 sampleExpired developerDb)
   \<and> status (subscription (users (snd (godaddySubscription (\<lambda>secret payload. secret @ payload)
        (\<lambda>body. Some sampleExpired) (Some ''whsec'') 50 unsignedRequest developerDb)) ! 0))
      = EXPIRED"
  using signature_check_is_skipped [of "Some ''whsec''" unsignedRequest
      "\<lambda>secret payload. secret @ payload" "\<lambda>body. Some sampleExpired" 50 developerDb]
  by (simp add: sample_defs processEvent_def handleSubscriptionExpired_def
      applyExpired_def bySubscriptionId_def save_def)

text \<open>
  C10. /verify and GET /:userId answer \<open>promptsPerMonth\<close> and \<open>promptsUsed\<close> of the
  stored user and, as \<open>promptsRemaining\<close>, their difference, with no case for an
  unlimited plan and no floor: for a user with \<open>promptsPerMonth = -1\<close> the answer is
  \<open>-1\<close> minus the counter (in /verify when no rollover is due). /track answers
  \<open>promptsPerMonth\<close> and \<open>promptsUsed\<close> of the stored user too, but as
  \<open>promptsRemaining\<close> it answers \<open>-1\<close> when \<open>promptsPerMonth = -1\<close> and otherwise
  the difference, not less than 0, in its 200 response and in its 429 response alike.
\<close>

theorem promptsRemaining_differs_between_routes:
  "(vr_userId vreq \<noteq> []
      \<and> k = (case findOne (\<lambda>u. userId u = vr_userId vreq) (users db) of
                None \<Rightarrow> length (users db) | Some i \<Rightarrow> i)
    \<longrightarrow> (\<exists>valid s t e. fst (verify g now vreq db) = VerifyOK valid s t e
          \<and> qv_promptsPerMonth (us_usageQuota s)
              = promptsPerMonth (usageQuota (users (snd (verify g now vreq db)) ! k))
          \<and> qv_promptsUsed (us_usageQuota s)
              = promptsUsed (usageQuota (users (snd (verify g now vreq db)) ! k))
          \<and> qv_promptsRemaining (us_usageQuota s)
              = promptsPerMonth (usageQuota (users (snd (verify g now vreq db)) ! k))
                - promptsUsed (usageQuota (users (snd (verify g now vreq db)) ! k))))
   \<and> (vr_userId vreq \<noteq> [] \<and> findOne (\<lambda>u. userId u = vr_userId vreq) (users db) = Some i
      \<and> promptsPerMonth (usageQuota (users db ! i)) = -1
      \<and> now \<le> resetDate (usageQuota (users db ! i))
    \<longrightarrow> (\<exists>valid s t e. fst (verify g now vreq db) = VerifyOK valid s t e
          \<and> qv_promptsRemaining (us_usageQuota s)
              = -1 - promptsUsed (usageQuota (users db ! i))))
   \<and> (uid \<noteq> [] \<and> findOne (\<lambda>u. userId u = uid) (users db) = Some j
    \<longrightarrow> (\<exists>s t e r. getSubscription now uid db = GetOK s t e r
          \<and> qv_promptsPerMonth (us_usageQuota s) = promptsPerMonth (usageQuota (users db ! j))
          \<and> qv_promptsUsed (us_usageQuota s) = promptsUsed (usageQuota (users db ! j))
          \<and> qv_promptsRemaining (us_usageQuota s)
              = promptsPerMonth (usageQuota (users db ! j))
                - promptsUsed (usageQuota (users db ! j))))
   \<and> (fst (track acceptsEvent now uuid req db) = TrackSuccess eid v
      \<or> fst (track acceptsEvent now uuid req db) = TrackUsageLimitExceeded v
    \<longrightarrow> (\<exists>m. findOne (\<lambda>u. userId u = req_userId req) (users db) = Some m
          \<and> qv_promptsPerMonth v
              = promptsPerMonth
                  (usageQuota (users (snd (track acceptsEvent now uuid req db)) ! m))
          \<and> qv_promptsUsed v
              = promptsUsed
                  (usageQuota (users (snd (track acceptsEvent now uuid req db)) ! m))
          \<and> qv_promptsRemaining v
              = (if promptsPerMonth
                      (usageQuota (users (snd (track acceptsEvent now uuid req db)) ! m)) = -1
                 then -1
                 else max 0
                   (promptsPerMonth
                        (usageQuota (users (snd (track acceptsEvent now uuid req db)) ! m))
                    - promptsUsed
                        (usageQuota (users (snd (track acceptsEvent now uuid req db)) ! m))))))"
proof -
  have a: "\<exists>valid s t e. fst (verify g now vreq db) = VerifyOK valid s t e
          \<and> qv_promptsPerMonth (us_usageQuota s)
              = promptsPerMonth (usageQuota (users (snd (verify g now vreq db)) ! k))
          \<and> qv_promptsUsed (us_usageQuota s)
              = promptsUsed (usageQuota (users (snd (verify g now vreq db)) ! k))
          \<and> qv_promptsRemaining (us_usageQuota s)
              = promptsPerMonth (usageQuota (users (snd (verify g now vreq db)) ! k))
                - promptsUsed (usageQuota (users (snd (verify g now vreq db)) ! k))"
    if "vr_userId vreq \<noteq> []"
      and "k = (case findOne (\<lambda>u. userId u = vr_userId vreq) (users db) of
                None \<Rightarrow> length (users db) | Some i \<Rightarrow> i)"
    using verify_view_of_user [OF that] .
  have b: "\<exists>valid s t e. fst (verify g now vreq db) = VerifyOK valid s t e
          \<and> qv_promptsRemaining (us_usageQuota s)
              = -1 - promptsUsed (usageQuota (users db ! i))"
    if "vr_userId vreq \<noteq> []" and "findOne (\<lambda>u. userId u = vr_userId vreq) (users db) = Some i"
      and "promptsPerMonth (usageQuota (users db ! i)) = -1"
      and "now \<le> resetDate (usageQuota (users db ! i))"
    using verify_unlimited [OF that] .
  have c: "\<exists>s t e r. getSubscription now uid db = GetOK s t e r
          \<and> qv_promptsPerMonth (us_usageQuota s) = promptsPerMonth (usageQuota (users db ! j))
          \<and> qv_promptsUsed (us_usageQuota s) = promptsUsed (usageQuota (users db ! j))
          \<and> qv_promptsRemaining (us_usageQuota s)
              = promptsPerMonth (usageQuota (users db ! j))
                - promptsUsed (usageQuota (users db ! j))"
    if "uid \<noteq> []" and "findOne (\<lambda>u. userId u = uid) (users db) = Some j"
    using getSubscription_found [OF that, of now]
    by (simp add: userSummary_def subscriptionQuotaView_def)
  have d: "\<exists>m. findOne (\<lambda>u. userId u = req_userId req) (users db) = Some m
          \<and> qv_promptsPerMonth v
              = promptsPerMonth
                  (usageQuota (users (snd (track acceptsEvent now uuid req db)) ! m))
          \<and> qv_promptsUsed v
              = promptsUsed
                  (usageQuota (users (snd (track acceptsEvent now uuid req db)) ! m))
          \<and> qv_promptsRemaining v
              = (if promptsPerMonth
                      (usageQuota (users (snd (track acceptsEvent now uuid req db)) ! m)) = -1
                 then -1
                 else max 0
                   (promptsPerMonth
                        (usageQuota (users (snd (track acceptsEvent now uuid req db)) ! m))
                    - promptsUsed
                        (usageQuota (users (snd (track acceptsEvent now uuid req db)) ! m))))"
    if "fst (track acceptsEvent now uuid req db) = TrackSuccess eid v
      \<or> fst (track acceptsEvent now uuid req db) = TrackUsageLimitExceeded v"
    using track_view_of_user [OF that] by blast
  from a b c d show ?thesis by blast
qed

theorem promptsRemaining_differs_between_routes_witness:
  "vr_userId sampleVerifyRequest \<noteq> []
   \<and> findOne (\<lambda>u. userId u = ''u1'') (users developerDb) = Some 0
   \<and> promptsPerMonth (usageQuota (users developerDb ! 0)) = -1
   \<and> promptsUsed (usageQuota (users developerDb ! 0)) = 120
   \<and> 50 \<le> resetDate (usageQuota (users developerDb ! 0))
   \<and> (\<exists>valid s t e. fst (verify (\<lambda>sid. None) 50 sampleVerifyRequest developerDb)
          = VerifyOK valid s t e
          \<and> qv_promptsPerMonth (us_usageQuota s) = -1
          \<and> qv_promptsUsed (us_usageQuota s) = 120
          \<and> qv_promptsRemaining (us_usageQuota s) = -121)
   \<and> (\<exists>s t e r. getSubscription 50 ''u1'' developerDb = GetOK s t e r
          \<and> qv_promptsPerMonth (us_usageQuota s) = -1
          \<and> qv_promptsUsed (us_usageQuota s) = 120
          \<and> qv_promptsRemaining (us_usageQuota s) = -121)
   \<and> fst (track sampleStore 50 ''e1'' chatRequest developerDb)
       = TrackSuccess ''e1'' \<lparr>qv_promptsPerMonth = -1, qv_promptsUsed = 121,
            qv_promptsRemaining = -1, qv_resetDate = thirtyDays\<rparr>
   \<and> promptsUsed (usageQuota (users (snd (track sampleStore 50 ''e1'' chatRequest
        developerDb)) ! 0)) = 121
   \<and> fst (track sampleStore 60 ''e2'' chatRequest exhaustedDb)
       = TrackUsageLimitExceeded \<lparr>qv_promptsPerMonth = 75, qv_promptsUsed = 75,
            qv_promptsRemaining = 0, qv_resetDate = thirtyDays\<rparr>"
proof -
  have h1: "vr_userId sampleVerifyRequest \<noteq> []" by (simp add: sample_defs)
  have h2: "findOne (\<lambda>u. userId u = ''u1'') (users developerDb) = Some 0"
    by (simp add: sample_defs)
  have h3: "promptsPerMonth (usageQuota (users developerDb ! 0)) = -1"
    by (simp add: sample_defs)
  have h4: "promptsUsed (usageQuota (users developerDb ! 0)) = 120"
    by (simp add: sample_defs)
  have h5: "50 \<le> resetDate (usageQuota (users developerDb ! 0))"
    by (simp add: sample_defs)
  have h6: "fst (track sampleStore 50 ''e1'' chatRequest developerDb)
       = TrackSuccess ''e1'' \<lparr>qv_promptsPerMonth = -1, qv_promptsUsed = 121,
           qv_promptsRemaining = -1, qv_resetDate = thirtyDays\<rparr>"
    by (simp add: sample_defs track_def checkPromptLimit_def parseUsageEventType_def
        trackQuotaView_def newUsageEvent_def save_def)
  have h7: "vr_userId sampleVerifyRequest = ''u1''" by (simp add: sample_defs)
  have h8: "req_userId chatRequest = ''u1''" by (simp add: sample_defs)
  have h9: "fst (track sampleStore 60 ''e2'' chatRequest exhaustedDb)
       = TrackUsageLimitExceeded \<lparr>qv_promptsPerMonth = 75, qv_promptsUsed = 75,
            qv_promptsRemaining = 0, qv_resetDate = thirtyDays\<rparr>"
    by (simp add: sample_defs track_def checkPromptLimit_def parseUsageEventType_def
        limitExceededView_def)
  have k: "(0::nat) = (case findOne (\<lambda>u. userId u = vr_userId sampleVerifyRequest)
        (users developerDb) of None \<Rightarrow> length (users developerDb) | Some i \<Rightarrow> i)"
    using h2 h7 by simp
  from promptsRemaining_differs_between_routes [of sampleVerifyRequest 0 developerDb
      "\<lambda>sid. None" 50 0 "''u1''" 0 sampleStore "''e1''" chatRequest "''e1''"
      "\<lparr>qv_promptsPerMonth = -1, qv_promptsUsed = 121,
           qv_promptsRemaining = -1, qv_resetDate = thirtyDays\<rparr>"]
  have all: "(\<exists>valid s t e. fst (verify (\<lambda>sid. None) 50 sampleVerifyRequest developerDb)
          = VerifyOK valid s t e
          \<and> qv_promptsPerMonth (us_usageQuota s)
              = promptsPerMonth (usageQuota (users (snd (verify (\<lambda>sid. None) 50
                  sampleVerifyRequest developerDb)) ! 0))
          \<and> qv_promptsUsed (us_usageQuota s)
              = promptsUsed (usageQuota (users (snd (verify (\<lambda>sid. None) 50
                  sampleVerifyRequest developerDb)) ! 0))
          \<and> qv_promptsRemaining (us_usageQuota s) = -121)"
    "(\<exists>s t e r. getSubscription 50 ''u1'' developerDb = GetOK s t e r
          \<and> qv_promptsPerMonth (us_usageQuota s) = -1
          \<and> qv_promptsUsed (us_usageQuota s) = 120
          \<and> qv_promptsRemaining (us_usageQuota s) = -121)"
    "promptsUsed (usageQuota (users (snd (track sampleStore 50 ''e1'' chatRequest
        developerDb)) ! 0)) = 121"
    using h1 h2 h3 h4 h5 h6 h7 h8 k by auto
  have stored: "usageQuota (users (snd (verify (\<lambda>sid. None) 50 sampleVerifyRequest
        developerDb)) ! 0) = usageQuota (users developerDb ! 0)"
    by (simp add: sample_defs verify_def syncGoDaddyStatus_def quotaRollover_def
        updateMetadata_def save_def)
  from all stored h1 h2 h3 h4 h5 h6 h9 show ?thesis by auto
qed

end
